theory Spec2Isabelle
  imports Main
begin

section \<open>Documents, errors and responses\<close>

text \<open>
  The two route files \<^verbatim>\<open>routes/api/posts.js\<close> and \<^verbatim>\<open>routes/api/profile.js\<close> are
  embedded as pure functions on an explicit document store. An identifier is the string
  form of a store identity (what \<^verbatim>\<open>toString()\<close> and the \<^verbatim>\<open>id\<close> getter yield); the
  authenticated principal is the string \<^verbatim>\<open>req.user.id\<close>. Writes to the store are taken
  to succeed, and requests are handled one after the other.
\<close>

type_synonym objectid = string

text \<open>
  Modelled from the spec: the schema file \<^verbatim>\<open>models/Post.js\<close> is not among the sources.
  A like is \<^verbatim>\<open>{user}\<close>; a comment is \<^verbatim>\<open>{text, name, avatar, user, date}\<close> with an
  identity of its own; a post is \<^verbatim>\<open>text, name, avatar, user, date\<close> with the embedded
  sequences \<^verbatim>\<open>likes\<close> and \<^verbatim>\<open>comments\<close>. The identity of a post is its key in the
  collection.
\<close>

record like =
  like_user :: objectid

record comment =
  comment_id :: objectid
  comment_text :: string
  comment_name :: string
  comment_avatar :: string
  comment_user :: objectid
  comment_date :: int

record post =
  post_text :: string
  post_name :: string
  post_avatar :: string
  post_user :: objectid
  post_date :: int
  likes :: "like list"
  comments :: "comment list"

type_synonym posts = "objectid \<rightharpoonup> post"

text \<open>
  What a handler's \<^verbatim>\<open>try\<close> block can throw: the store's cast error for an identifier
  that is not structurally valid (its \<^verbatim>\<open>kind\<close> is \<^verbatim>\<open>"ObjectId"\<close>), the type error of
  reading a property of \<^verbatim>\<open>null\<close>, and the store's validation error.
\<close>

datatype js_error = CastError | TypeError | ValidationError

definition kind_is_ObjectId :: "js_error \<Rightarrow> bool" where
  "kind_is_ObjectId err = (err = CastError)"

subsection \<open>Array operations of the host language\<close>

text \<open>\<^verbatim>\<open>Array.prototype.indexOf\<close>: the first index holding the value, or \<open>-1\<close>.\<close>

fun indexOf :: "'a list \<Rightarrow> 'a \<Rightarrow> int" where
  "indexOf [] x = - 1"
| "indexOf (y # ys) x =
     (if y = x then 0
      else (let i = indexOf ys x in if i = - 1 then - 1 else i + 1))"

text \<open>
  \<^verbatim>\<open>Array.prototype.splice(start, deleteCount)\<close> with no inserted items: a negative
  start counts from the end, and the start is clamped to the array.
\<close>

definition splice_js :: "int \<Rightarrow> nat \<Rightarrow> 'a list \<Rightarrow> 'a list" where
  "splice_js start deleteCount xs =
     (let n = int (length xs);
          s = (if start < 0 then max (n + start) 0 else min start n)
      in take (nat s) xs @ drop (nat s + deleteCount) xs)"

text \<open>\<^verbatim>\<open>Array.prototype.unshift\<close> with one item.\<close>

definition unshift :: "'a \<Rightarrow> 'a list \<Rightarrow> 'a list" where
  "unshift x xs = x # xs"

subsection \<open>The posts collection\<close>

text \<open>
  \<^verbatim>\<open>Post.findById\<close>: the validity of an identifier is decided by the store's driver, so
  it is a parameter here. An invalid identifier throws, a valid one yields the document
  or \<^verbatim>\<open>null\<close>.
\<close>

definition findById :: "(objectid \<Rightarrow> bool) \<Rightarrow> (objectid \<rightharpoonup> 'd) \<Rightarrow> objectid \<Rightarrow> js_error + 'd option" where
  "findById isObjectId coll i = (if isObjectId i then Inr (coll i) else Inl CastError)"

text \<open>\<^verbatim>\<open>post.save()\<close> and \<^verbatim>\<open>post.remove()\<close> on a loaded document.\<close>

definition save :: "objectid \<Rightarrow> 'd \<Rightarrow> (objectid \<rightharpoonup> 'd) \<Rightarrow> (objectid \<rightharpoonup> 'd)" where
  "save i d coll = coll(i \<mapsto> d)"

definition remove :: "objectid \<Rightarrow> (objectid \<rightharpoonup> 'd) \<Rightarrow> (objectid \<rightharpoonup> 'd)" where
  "remove i coll = coll(i := None)"

subsection \<open>Responses of the post routes\<close>

datatype post_body =
    Msg string
  | Text string
  | PostDoc post
  | Likes "like list"
  | Comments "comment list"

datatype post_response = Response (status_code: nat) (body: post_body)

definition server_error :: post_response where
  "server_error = Response 500 (Text ''Server Error.'')"

definition post_not_found :: post_response where
  "post_not_found = Response 404 (Msg ''Post not Found.'')"

section \<open>The post routes\<close>

text \<open>\<^verbatim>\<open>GET /api/posts/:id\<close>\<close>

definition get_post_try :: "(objectid \<Rightarrow> bool) \<Rightarrow> posts \<Rightarrow> objectid \<Rightarrow> js_error + post_response" where
  "get_post_try isObjectId db i =
     (case findById isObjectId db i of
        Inl err \<Rightarrow> Inl err
      | Inr None \<Rightarrow> Inr post_not_found
      | Inr (Some p) \<Rightarrow> Inr (Response 200 (PostDoc p)))"

definition get_post :: "(objectid \<Rightarrow> bool) \<Rightarrow> posts \<Rightarrow> objectid \<Rightarrow> post_response" where
  "get_post isObjectId db i =
     (case get_post_try isObjectId db i of
        Inr r \<Rightarrow> r
      | Inl err \<Rightarrow> if kind_is_ObjectId err then post_not_found else server_error)"

text \<open>\<^verbatim>\<open>DELETE /api/posts/:id\<close>\<close>

definition delete_post_try ::
  "(objectid \<Rightarrow> bool) \<Rightarrow> posts \<Rightarrow> objectid \<Rightarrow> objectid \<Rightarrow> js_error + (post_response \<times> posts)" where
  "delete_post_try isObjectId db uid i =
     (case findById isObjectId db i of
        Inl err \<Rightarrow> Inl err
      | Inr None \<Rightarrow> Inr (post_not_found, db)
      | Inr (Some p) \<Rightarrow>
          if post_user p \<noteq> uid
          then Inr (Response 401 (Msg ''User not Authorized to Delete.''), db)
          else Inr (Response 200 (Msg ''Post Removed.''), remove i db))"

definition delete_post ::
  "(objectid \<Rightarrow> bool) \<Rightarrow> posts \<Rightarrow> objectid \<Rightarrow> objectid \<Rightarrow> post_response \<times> posts" where
  "delete_post isObjectId db uid i =
     (case delete_post_try isObjectId db uid i of
        Inr r \<Rightarrow> r
      | Inl err \<Rightarrow> (if kind_is_ObjectId err then post_not_found else server_error, db))"

text \<open>\<^verbatim>\<open>PUT /api/posts/like/:id\<close>. Reading \<^verbatim>\<open>post.likes\<close> of \<^verbatim>\<open>null\<close> throws.\<close>

definition like_try ::
  "(objectid \<Rightarrow> bool) \<Rightarrow> posts \<Rightarrow> objectid \<Rightarrow> objectid \<Rightarrow> js_error + (post_response \<times> posts)" where
  "like_try isObjectId db uid i =
     (case findById isObjectId db i of
        Inl err \<Rightarrow> Inl err
      | Inr None \<Rightarrow> Inl TypeError
      | Inr (Some p) \<Rightarrow>
          if length (filter (\<lambda>l. like_user l = uid) (likes p)) > 0
          then Inr (Response 400 (Msg ''Post is already liked.''), db)
          else (let p' = p\<lparr>likes := unshift \<lparr>like_user = uid\<rparr> (likes p)\<rparr>
                in Inr (Response 200 (Likes (likes p')), save i p' db)))"

definition like_post ::
  "(objectid \<Rightarrow> bool) \<Rightarrow> posts \<Rightarrow> objectid \<Rightarrow> objectid \<Rightarrow> post_response \<times> posts" where
  "like_post isObjectId db uid i =
     (case like_try isObjectId db uid i of
        Inr r \<Rightarrow> r
      | Inl err \<Rightarrow> (server_error, db))"

text \<open>\<^verbatim>\<open>PUT /api/posts/unlike/:id\<close>\<close>

definition unlike_try ::
  "(objectid \<Rightarrow> bool) \<Rightarrow> posts \<Rightarrow> objectid \<Rightarrow> objectid \<Rightarrow> js_error + (post_response \<times> posts)" where
  "unlike_try isObjectId db uid i =
     (case findById isObjectId db i of
        Inl err \<Rightarrow> Inl err
      | Inr None \<Rightarrow> Inl TypeError
      | Inr (Some p) \<Rightarrow>
          if length (filter (\<lambda>l. like_user l = uid) (likes p)) = 0
          then Inr (Response 400 (Msg ''Post is not liked yet.''), db)
          else (let rmvIdx = indexOf (map like_user (likes p)) uid;
                    p' = p\<lparr>likes := splice_js rmvIdx 1 (likes p)\<rparr>
                in Inr (Response 200 (Likes (likes p')), save i p' db)))"

definition unlike_post ::
  "(objectid \<Rightarrow> bool) \<Rightarrow> posts \<Rightarrow> objectid \<Rightarrow> objectid \<Rightarrow> post_response \<times> posts" where
  "unlike_post isObjectId db uid i =
     (case unlike_try isObjectId db uid i of
        Inr r \<Rightarrow> r
      | Inl err \<Rightarrow> (server_error, db))"

text \<open>\<^verbatim>\<open>DELETE /api/posts/comment/:id/:comm_id\<close>\<close>

definition delete_comment_try ::
  "(objectid \<Rightarrow> bool) \<Rightarrow> posts \<Rightarrow> objectid \<Rightarrow> objectid \<Rightarrow> objectid \<Rightarrow> js_error + (post_response \<times> posts)" where
  "delete_comment_try isObjectId db uid i comm_id =
     (case findById isObjectId db i of
        Inl err \<Rightarrow> Inl err
      | Inr None \<Rightarrow> Inl TypeError
      | Inr (Some p) \<Rightarrow>
          (case find (\<lambda>c. comment_id c = comm_id) (comments p) of
             None \<Rightarrow> Inr (Response 404 (Msg ''Comment does not Exist.''), db)
           | Some c \<Rightarrow>
               if comment_user c \<noteq> uid
               then Inr (Response 401 (Msg ''User not Authorized.''), db)
               else (let rmvIdx = indexOf (map comment_user (comments p)) uid;
                         p' = p\<lparr>comments := splice_js rmvIdx 1 (comments p)\<rparr>
                     in Inr (Response 200 (Comments (comments p')), save i p' db))))"

definition delete_comment ::
  "(objectid \<Rightarrow> bool) \<Rightarrow> posts \<Rightarrow> objectid \<Rightarrow> objectid \<Rightarrow> objectid \<Rightarrow> post_response \<times> posts" where
  "delete_comment isObjectId db uid i comm_id =
     (case delete_comment_try isObjectId db uid i comm_id of
        Inr r \<Rightarrow> r
      | Inl err \<Rightarrow> (server_error, db))"

section \<open>The profile routes\<close>

text \<open>
  Modelled from the spec: the schema file \<^verbatim>\<open>models/Profile.js\<close> is not among the
  sources. A profile belongs to one user, has the required fields \<^verbatim>\<open>status\<close> and
  \<^verbatim>\<open>skills\<close>, optional fields, a sub-record \<^verbatim>\<open>social\<close> of optional links and the
  embedded sequences \<^verbatim>\<open>experience\<close> and \<^verbatim>\<open>education\<close>, whose entries carry a
  generated identity. An optional field that is not set is \<open>None\<close>.
\<close>

record social =
  youtube :: "string option"
  facebook :: "string option"
  twitter :: "string option"
  instagram :: "string option"
  linkedin :: "string option"

record experience_entry =
  exp_id :: objectid
  exp_title :: "string option"
  exp_company :: "string option"
  exp_location :: "string option"
  exp_from :: "string option"
  exp_to :: "string option"
  exp_current :: "bool option"
  exp_description :: "string option"

record education_entry =
  edu_id :: objectid
  edu_school :: "string option"
  edu_degree :: "string option"
  edu_fieldofstudy :: "string option"
  edu_from :: "string option"
  edu_to :: "string option"
  edu_current :: "bool option"
  edu_description :: "string option"

record profile =
  profile_id :: objectid
  user :: objectid
  company :: "string option"
  website :: "string option"
  location :: "string option"
  bio :: "string option"
  status :: string
  skills :: "string list"
  githubusername :: "string option"
  social :: social
  experience :: "experience_entry list"
  education :: "education_entry list"

text \<open>The collection of profiles, in the order the store returns them.\<close>

type_synonym profiles = "profile list"

datatype profile_body =
    PMsg string
  | PText string
  | Errors "string list"
  | ProfileDoc profile
  | JsonNull

datatype profile_response = PResponse (pstatus_code: nat) (pbody: profile_body)

definition profile_server_error :: profile_response where
  "profile_server_error = PResponse 500 (PText ''Server Error.'')"

subsection \<open>String operations of the host language\<close>

text \<open>
  \<^verbatim>\<open>String.prototype.split\<close> with a one-character separator: one piece more than there
  are separators, empty pieces kept.
\<close>

fun split :: "char \<Rightarrow> string \<Rightarrow> string list" where
  "split sep [] = [[]]"
| "split sep (c # cs) =
     (if c = sep then [] # split sep cs
      else (case split sep cs of
              [] \<Rightarrow> [[c]]
            | piece # pieces \<Rightarrow> (c # piece) # pieces))"

text \<open>
  \<^verbatim>\<open>String.prototype.trim\<close> removes white space and line terminators from both ends;
  among the 8-bit characters these are tab, line feed, vertical tab, form feed, carriage
  return, space and the no-break space.
\<close>

definition is_whitespace :: "char \<Rightarrow> bool" where
  "is_whitespace c =
     (c \<in> set [CHR 0x09, CHR 0x0A, CHR 0x0B, CHR 0x0C, CHR 0x0D, CHR 0x20, CHR 0xA0])"

definition trim :: "string \<Rightarrow> string" where
  "trim s = rev (dropWhile is_whitespace (rev (dropWhile is_whitespace s)))"

text \<open>
  \<^verbatim>\<open>Array.prototype.join\<close>: the pieces with the separator between them. It is not called
  by the routes; it states what splitting means, as joining the pieces gives the input back.
\<close>

fun join :: "string \<Rightarrow> string list \<Rightarrow> string" where
  "join sep [] = []"
| "join sep [piece] = piece"
| "join sep (piece # next_piece # pieces) = piece @ sep @ join sep (next_piece # pieces)"

text \<open>The truth value of an optional string in a condition: absent and empty are false.\<close>

definition truthy :: "string option \<Rightarrow> bool" where
  "truthy v = (case v of None \<Rightarrow> False | Some s \<Rightarrow> s \<noteq> [])"

text \<open>The validator chain \<^verbatim>\<open>check(field, message).not().isEmpty()\<close>.\<close>

definition check_not_empty :: "string option \<Rightarrow> string \<Rightarrow> string list" where
  "check_not_empty v message =
     (case v of
        None \<Rightarrow> [message]
      | Some s \<Rightarrow> if s = [] then [message] else [])"

subsection \<open>\<^verbatim>\<open>POST /api/profile\<close>\<close>

record profile_body_in =
  b_company :: "string option"
  b_website :: "string option"
  b_location :: "string option"
  b_bio :: "string option"
  b_status :: "string option"
  b_githubusername :: "string option"
  b_skills :: "string option"
  b_youtube :: "string option"
  b_facebook :: "string option"
  b_twitter :: "string option"
  b_instagram :: "string option"
  b_linkedin :: "string option"

text \<open>
  The object \<^verbatim>\<open>profileFields\<close>: a key that was not assigned is \<open>None\<close>. The keys
  \<^verbatim>\<open>user\<close> and \<^verbatim>\<open>social\<close> are always assigned.
\<close>

record profileFields =
  pf_user :: objectid
  pf_company :: "string option"
  pf_website :: "string option"
  pf_location :: "string option"
  pf_bio :: "string option"
  pf_status :: "string option"
  pf_githubusername :: "string option"
  pf_skills :: "string list option"
  pf_social :: social

definition if_truthy :: "string option \<Rightarrow> string option" where
  "if_truthy v = (if truthy v then v else None)"

definition build_profileFields :: "objectid \<Rightarrow> profile_body_in \<Rightarrow> profileFields" where
  "build_profileFields uid b =
     \<lparr> pf_user = uid,
       pf_company = if_truthy (b_company b),
       pf_website = if_truthy (b_website b),
       pf_location = if_truthy (b_location b),
       pf_bio = if_truthy (b_bio b),
       pf_status = if_truthy (b_status b),
       pf_githubusername = if_truthy (b_githubusername b),
       pf_skills =
         (case b_skills b of
            None \<Rightarrow> None
          | Some skills_in \<Rightarrow>
              if truthy (Some skills_in)
              then Some (map trim (split CHR '','' skills_in))
              else None),
       pf_social =
         \<lparr> youtube = if_truthy (b_youtube b),
           facebook = if_truthy (b_facebook b),
           twitter = if_truthy (b_twitter b),
           instagram = if_truthy (b_instagram b),
           linkedin = if_truthy (b_linkedin b) \<rparr> \<rparr>"

text \<open>
  The update \<^verbatim>\<open>{ $set: profileFields }\<close>: every key of the object replaces the
  document's field of that name, whole. The key \<^verbatim>\<open>social\<close> is always there, so the
  document's \<^verbatim>\<open>social\<close> becomes the object built from the request.
\<close>

definition or_else :: "'a option \<Rightarrow> 'a option \<Rightarrow> 'a option" where
  "or_else new old = (case new of None \<Rightarrow> old | Some v \<Rightarrow> Some v)"

definition set_fields :: "profileFields \<Rightarrow> profile \<Rightarrow> profile" where
  "set_fields f p =
     p\<lparr> user := pf_user f,
        company := or_else (pf_company f) (company p),
        website := or_else (pf_website f) (website p),
        location := or_else (pf_location f) (location p),
        bio := or_else (pf_bio f) (bio p),
        status := (case pf_status f of None \<Rightarrow> status p | Some v \<Rightarrow> v),
        githubusername := or_else (pf_githubusername f) (githubusername p),
        skills := (case pf_skills f of None \<Rightarrow> skills p | Some v \<Rightarrow> v),
        social := pf_social f \<rparr>"

text \<open>\<^verbatim>\<open>Profile.findOne({ user })\<close>: the first profile of that user, or \<^verbatim>\<open>null\<close>.\<close>

definition findOne :: "objectid \<Rightarrow> profiles \<Rightarrow> profile option" where
  "findOne uid db = find (\<lambda>p. user p = uid) db"

text \<open>
  \<^verbatim>\<open>Profile.findOneAndUpdate({ user }, { $set }, { new: true })\<close>: updates the first
  profile of that user and returns it as updated, or \<^verbatim>\<open>null\<close>.
\<close>

fun findOneAndUpdate :: "objectid \<Rightarrow> profileFields \<Rightarrow> profiles \<Rightarrow> profile option \<times> profiles" where
  "findOneAndUpdate uid f [] = (None, [])"
| "findOneAndUpdate uid f (p # ps) =
     (if user p = uid then (Some (set_fields f p), set_fields f p # ps)
      else (case findOneAndUpdate uid f ps of (r, ps') \<Rightarrow> (r, p # ps')))"

text \<open>
  \<^verbatim>\<open>new Profile(profileFields)\<close> followed by \<^verbatim>\<open>save()\<close>: the document gets the fresh
  identity \<open>newId\<close>, a key that was not assigned stays unset, the sequences start empty,
  and the store refuses a document without the required \<^verbatim>\<open>status\<close>.
\<close>

definition new_Profile :: "objectid \<Rightarrow> profileFields \<Rightarrow> js_error + profile" where
  "new_Profile newId f =
     (case pf_status f of
        None \<Rightarrow> Inl ValidationError
      | Some s \<Rightarrow>
          Inr \<lparr> profile_id = newId,
                user = pf_user f,
                company = pf_company f,
                website = pf_website f,
                location = pf_location f,
                bio = pf_bio f,
                status = s,
                skills = (case pf_skills f of None \<Rightarrow> [] | Some v \<Rightarrow> v),
                githubusername = pf_githubusername f,
                social = pf_social f,
                experience = [],
                education = [] \<rparr>)"

definition upsert_profile_try ::
  "objectid \<Rightarrow> profiles \<Rightarrow> objectid \<Rightarrow> profileFields \<Rightarrow> js_error + (profile_response \<times> profiles)" where
  "upsert_profile_try newId db uid f =
     (case findOne uid db of
        Some _ \<Rightarrow>
          (case findOneAndUpdate uid f db of
             (None, db') \<Rightarrow> Inr (PResponse 200 JsonNull, db')
           | (Some p', db') \<Rightarrow> Inr (PResponse 200 (ProfileDoc p'), db'))
      | None \<Rightarrow>
          (case new_Profile newId f of
             Inl err \<Rightarrow> Inl err
           | Inr p \<Rightarrow> Inr (PResponse 200 (ProfileDoc p), db @ [p])))"

definition upsert_profile ::
  "objectid \<Rightarrow> profiles \<Rightarrow> objectid \<Rightarrow> profile_body_in \<Rightarrow> profile_response \<times> profiles" where
  "upsert_profile newId db uid b =
     (let errors = check_not_empty (b_status b) ''Status is required.''
                 @ check_not_empty (b_skills b) ''Skills is required.''
      in if errors \<noteq> [] then (PResponse 400 (Errors errors), db)
         else (case upsert_profile_try newId db uid (build_profileFields uid b) of
                 Inr r \<Rightarrow> r
               | Inl err \<Rightarrow> (profile_server_error, db)))"

text \<open>A sequence of upsert requests, each with its principal, body and fresh identity.\<close>

fun upsert_profiles :: "profiles \<Rightarrow> (objectid \<times> objectid \<times> profile_body_in) list \<Rightarrow> profiles" where
  "upsert_profiles db [] = db"
| "upsert_profiles db ((newId, uid, b) # calls) =
     upsert_profiles (snd (upsert_profile newId db uid b)) calls"

subsection \<open>\<^verbatim>\<open>PUT /api/profile/experience\<close>\<close>

record experience_body =
  eb_title :: "string option"
  eb_company :: "string option"
  eb_location :: "string option"
  eb_from :: "string option"
  eb_to :: "string option"
  eb_current :: "bool option"
  eb_description :: "string option"

text \<open>The object \<^verbatim>\<open>newExp\<close>, as the entry it becomes with the fresh identity \<open>newId\<close>.\<close>

definition newExp :: "objectid \<Rightarrow> experience_body \<Rightarrow> experience_entry" where
  "newExp newId b =
     \<lparr> exp_id = newId,
       exp_title = eb_title b,
       exp_company = eb_company b,
       exp_location = eb_location b,
       exp_from = eb_from b,
       exp_to = eb_to b,
       exp_current = eb_current b,
       exp_description = eb_description b \<rparr>"

text \<open>\<^verbatim>\<open>profile.save()\<close> on a loaded profile replaces the stored document of that identity.\<close>

definition save_profile :: "profile \<Rightarrow> profiles \<Rightarrow> profiles" where
  "save_profile p db = map (\<lambda>q. if profile_id q = profile_id p then p else q) db"

definition add_experience_try ::
  "objectid \<Rightarrow> profiles \<Rightarrow> objectid \<Rightarrow> experience_body \<Rightarrow> js_error + (profile_response \<times> profiles)" where
  "add_experience_try newId db uid b =
     (case findOne uid db of
        None \<Rightarrow> Inl TypeError
      | Some p \<Rightarrow>
          (let p' = p\<lparr>experience := unshift (newExp newId b) (experience p)\<rparr>
           in Inr (PResponse 200 (ProfileDoc p'), save_profile p' db)))"

definition add_experience ::
  "objectid \<Rightarrow> profiles \<Rightarrow> objectid \<Rightarrow> experience_body \<Rightarrow> profile_response \<times> profiles" where
  "add_experience newId db uid b =
     (let errors = check_not_empty (eb_title b) ''Title is required.''
                 @ check_not_empty (eb_company b) ''Company is required.''
                 @ check_not_empty (eb_from b) ''From date is required.''
      in if errors \<noteq> [] then (PResponse 400 (Errors errors), db)
         else (case add_experience_try newId db uid b of
                 Inr r \<Rightarrow> r
               | Inl err \<Rightarrow> (profile_server_error, db)))"

text \<open>A sequence of requests of one principal, each with its fresh identity.\<close>

fun add_experiences :: "profiles \<Rightarrow> objectid \<Rightarrow> (objectid \<times> experience_body) list \<Rightarrow> profiles" where
  "add_experiences db uid [] = db"
| "add_experiences db uid ((newId, b) # entries) =
     add_experiences (snd (add_experience newId db uid b)) uid entries"

section \<open>Sample documents\<close>

text \<open>
  Concrete requests and stores, for evaluating the routes: two users, a post of the first
  with three comments of which she wrote two, and an identifier check that accepts the
  two-character names used here.
\<close>

definition sample_isObjectId :: "objectid \<Rightarrow> bool" where
  "sample_isObjectId s = (length s = 2)"

definition sample_comment :: "objectid \<Rightarrow> objectid \<Rightarrow> string \<Rightarrow> comment" where
  "sample_comment cid uid txt =
     \<lparr> comment_id = cid, comment_text = txt, comment_name = uid, comment_avatar = [],
       comment_user = uid, comment_date = 0 \<rparr>"

definition sample_post :: post where
  "sample_post =
     \<lparr> post_text = ''hello'', post_name = ''u1'', post_avatar = [], post_user = ''u1'',
       post_date = 0, likes = [],
       comments = [sample_comment ''c1'' ''u1'' ''first'',
                   sample_comment ''c2'' ''u1'' ''second'',
                   sample_comment ''c3'' ''u2'' ''third''] \<rparr>"

definition sample_posts :: posts where
  "sample_posts = [''p1'' \<mapsto> sample_post]"

text \<open>The same store after three likes, the first and the last by the same user.\<close>

definition sample_liked_post :: post where
  "sample_liked_post =
     sample_post\<lparr>likes := [\<lparr>like_user = ''u2''\<rparr>, \<lparr>like_user = ''u1''\<rparr>, \<lparr>like_user = ''u2''\<rparr>]\<rparr>"

definition sample_liked_posts :: posts where
  "sample_liked_posts = [''p1'' \<mapsto> sample_liked_post]"

text \<open>
  Two requests to the profile route by the same user: the first sets a company and a
  YouTube link, the second names neither and sets a Twitter link. Then the profile the
  first one creates, and an experience entry with the required fields.
\<close>

definition sample_body :: profile_body_in where
  "sample_body =
     \<lparr> b_company = Some ''Acme'', b_website = None, b_location = None, b_bio = None,
       b_status = Some ''Developer'', b_githubusername = None,
       b_skills = Some ''node, react , css'',
       b_youtube = Some ''https://youtube.example/u1'', b_facebook = None, b_twitter = None,
       b_instagram = None, b_linkedin = None \<rparr>"

definition sample_update :: profile_body_in where
  "sample_update =
     \<lparr> b_company = None, b_website = None, b_location = None, b_bio = None,
       b_status = Some ''Lead'', b_githubusername = None,
       b_skills = Some ''node'',
       b_youtube = None, b_facebook = None,
       b_twitter = Some ''https://twitter.example/u1'',
       b_instagram = None, b_linkedin = None \<rparr>"

definition sample_profile :: profile where
  "sample_profile =
     \<lparr> profile_id = ''a1'', user = ''u1'', company = Some ''Acme'', website = None,
       location = None, bio = None, status = ''Developer'',
       skills = [''node'', ''react'', ''css''], githubusername = None,
       social = \<lparr> youtube = Some ''https://youtube.example/u1'', facebook = None,
                  twitter = None, instagram = None, linkedin = None \<rparr>,
       experience = [], education = [] \<rparr>"

definition sample_experience :: "string \<Rightarrow> experience_body" where
  "sample_experience t =
     \<lparr> eb_title = Some t, eb_company = Some ''Acme'', eb_location = None,
       eb_from = Some ''2019-01-01'', eb_to = None, eb_current = Some True,
       eb_description = None \<rparr>"

section \<open>Facts about the array operations and the post routes\<close>


lemma indexOf_first:
  assumes "\<forall>y\<in>set ys. f y \<noteq> u" and "f c = u"
  shows "indexOf (map f (ys @ c # zs)) u = int (length ys)"
  using assms by (induction ys) (auto simp: Let_def)

lemma splice_js_at_length: "splice_js (int (length ys)) (Suc 0) (ys @ c # zs) = ys @ zs"
  by (simp add: splice_js_def Let_def)

lemma first_match_split:
  assumes "\<exists>x\<in>set xs. P x"
  shows "\<exists>ys c zs. xs = ys @ c # zs \<and> P c \<and> (\<forall>y\<in>set ys. \<not> P y)"
  using assms by (metis split_list_first_prop)

lemma filter_length_zero: "(length (filter P xs) = 0) = (\<forall>x\<in>set xs. \<not> P x)"
  by (simp add: filter_empty_conv)

lemma like_post_existing:
  assumes "isObjectId i" and "db i = Some p"
  shows "like_post isObjectId db uid i =
           (if \<exists>l\<in>set (likes p). like_user l = uid
            then (Response 400 (Msg ''Post is already liked.''), db)
            else (Response 200 (Likes (\<lparr>like_user = uid\<rparr> # likes p)),
                  db(i \<mapsto> p\<lparr>likes := \<lparr>like_user = uid\<rparr> # likes p\<rparr>)))"
  using assms
  by (auto simp add: like_post_def like_try_def findById_def filter_empty_conv unshift_def save_def Let_def)

lemma unlike_post_none:
  assumes "isObjectId i" and "db i = Some p" and "\<forall>l\<in>set (likes p). like_user l \<noteq> uid"
  shows "unlike_post isObjectId db uid i = (Response 400 (Msg ''Post is not liked yet.''), db)"
  using assms
  by (simp add: unlike_post_def unlike_try_def findById_def filter_length_zero)

lemma unlike_post_first:
  assumes "isObjectId i" and "db i = Some p"
    and "likes p = ys @ l # zs" and "like_user l = uid" and "\<forall>y\<in>set ys. like_user y \<noteq> uid"
  shows "unlike_post isObjectId db uid i =
           (Response 200 (Likes (ys @ zs)), db(i \<mapsto> p\<lparr>likes := ys @ zs\<rparr>))"
proof -
  have idx: "indexOf (map like_user (likes p)) uid = int (length ys)"
    using assms(3-5) by (simp only: indexOf_first)
  have nz: "length (filter (\<lambda>l. like_user l = uid) (likes p)) \<noteq> 0"
    using assms(3,4) by (simp add: filter_empty_conv)
  have sp: "splice_js (int (length ys)) (Suc 0) (likes p) = ys @ zs"
    using assms(3) by (simp only: splice_js_at_length)
  show ?thesis
    using assms(1,2) nz
    by (simp add: unlike_post_def unlike_try_def findById_def idx sp save_def Let_def)
qed



lemma delete_comment_missing:
  assumes "isObjectId i" and "db i = Some p"
    and "\<forall>c\<in>set (comments p). comment_id c \<noteq> cid"
  shows "delete_comment isObjectId db uid i cid =
           (Response 404 (Msg ''Comment does not Exist.''), db)"
proof -
  have "find (\<lambda>c. comment_id c = cid) (comments p) = None"
    using assms(3) by (simp add: find_None_iff)
  then show ?thesis
    using assms(1,2) by (simp add: delete_comment_def delete_comment_try_def findById_def)
qed

lemma delete_comment_not_author:
  assumes "isObjectId i" and "db i = Some p"
    and "find (\<lambda>c. comment_id c = cid) (comments p) = Some c" and "comment_user c \<noteq> uid"
  shows "delete_comment isObjectId db uid i cid =
           (Response 401 (Msg ''User not Authorized.''), db)"
  using assms by (simp add: delete_comment_def delete_comment_try_def findById_def)

lemma delete_comment_success:
  assumes "isObjectId i" and "db i = Some p"
    and "delete_comment isObjectId db uid i cid = (Response 200 b, db')"
  shows "\<exists>ys c zs. comments p = ys @ c # zs \<and> comment_user c = uid
           \<and> (\<forall>y\<in>set ys. comment_user y \<noteq> uid)
           \<and> b = Comments (ys @ zs) \<and> db' = db(i \<mapsto> p\<lparr>comments := ys @ zs\<rparr>)"
proof -
  from assms obtain c0 where f: "find (\<lambda>c. comment_id c = cid) (comments p) = Some c0"
    and u: "comment_user c0 = uid"
    by (auto simp: delete_comment_def delete_comment_try_def findById_def
          split: option.splits if_splits)
  from f have "c0 \<in> set (comments p)"
    by (auto simp: find_Some_iff)
  with u have "\<exists>x\<in>set (comments p). comment_user x = uid" by blast
  then obtain ys c zs where sp: "comments p = ys @ c # zs" "comment_user c = uid"
      "\<forall>y\<in>set ys. comment_user y \<noteq> uid"
    using first_match_split [of "comments p" "\<lambda>x. comment_user x = uid"] by blast
  have idx: "indexOf (map comment_user (comments p)) uid = int (length ys)"
    using sp by (simp only: indexOf_first)
  have cut: "splice_js (int (length ys)) (Suc 0) (comments p) = ys @ zs"
    using sp(1) by (simp only: splice_js_at_length)
  have "delete_comment isObjectId db uid i cid =
          (Response 200 (Comments (ys @ zs)), db(i \<mapsto> p\<lparr>comments := ys @ zs\<rparr>))"
    using assms(1,2) f u
    by (simp add: delete_comment_def delete_comment_try_def findById_def idx cut save_def Let_def)
  with assms(3) sp show ?thesis by auto
qed

lemma delete_post_absent:
  assumes "\<not> isObjectId i \<or> db i = None"
  shows "delete_post isObjectId db uid i = (post_not_found, db)"
  using assms
  by (auto simp: delete_post_def delete_post_try_def findById_def kind_is_ObjectId_def)

lemma get_post_absent:
  assumes "\<not> isObjectId i \<or> db i = None"
  shows "get_post isObjectId db i = post_not_found"
  using assms
  by (auto simp: get_post_def get_post_try_def findById_def kind_is_ObjectId_def)

lemma like_post_absent:
  assumes "\<not> isObjectId i \<or> db i = None"
  shows "like_post isObjectId db uid i = (server_error, db)"
  using assms by (auto simp: like_post_def like_try_def findById_def)

lemma unlike_post_absent:
  assumes "\<not> isObjectId i \<or> db i = None"
  shows "unlike_post isObjectId db uid i = (server_error, db)"
  using assms by (auto simp: unlike_post_def unlike_try_def findById_def)

lemma delete_post_existing:
  assumes "isObjectId i" and "db i = Some p"
  shows "delete_post isObjectId db uid i =
           (if post_user p \<noteq> uid
            then (Response 401 (Msg ''User not Authorized to Delete.''), db)
            else (Response 200 (Msg ''Post Removed.''), db(i := None)))"
  using assms by (simp add: delete_post_def delete_post_try_def findById_def remove_def)


section \<open>Deleting a comment\<close>

text \<open>
  C1. On an existing post, when deleting a comment succeeds (status 200), the entry that
  leaves \<^verbatim>\<open>comments\<close> is the first one whose author is the principal: the sequence
  splits into entries of other authors, that entry, and the rest, and both the response
  and the stored post hold the sequence without it. That entry need not be the one named
  by the comment identifier: on the sample post, whose first two comments are by the same
  user, deleting the second removes the first and leaves the second in place.
\<close>


theorem delete_comment_removes_first_of_author:
  assumes "isObjectId i" and "db i = Some p"
    and "delete_comment isObjectId db uid i cid = (Response 200 b, db')"
  shows "(\<exists>ys c zs. comments p = ys @ c # zs \<and> comment_user c = uid
            \<and> (\<forall>y\<in>set ys. comment_user y \<noteq> uid)
            \<and> b = Comments (ys @ zs) \<and> db' = db(i \<mapsto> p\<lparr>comments := ys @ zs\<rparr>))
         \<and> fst (delete_comment sample_isObjectId sample_posts ''u1'' ''p1'' ''c2'')
             = Response 200 (Comments [sample_comment ''c2'' ''u1'' ''second'',
                                       sample_comment ''c3'' ''u2'' ''third''])"
proof
  show "\<exists>ys c zs. comments p = ys @ c # zs \<and> comment_user c = uid
            \<and> (\<forall>y\<in>set ys. comment_user y \<noteq> uid)
            \<and> b = Comments (ys @ zs) \<and> db' = db(i \<mapsto> p\<lparr>comments := ys @ zs\<rparr>)"
    using assms by (rule delete_comment_success)
next
  show "fst (delete_comment sample_isObjectId sample_posts ''u1'' ''p1'' ''c2'')
             = Response 200 (Comments [sample_comment ''c2'' ''u1'' ''second'',
                                       sample_comment ''c3'' ''u2'' ''third''])"
    by (simp add: delete_comment_def delete_comment_try_def findById_def sample_isObjectId_def
          sample_posts_def sample_post_def sample_comment_def splice_js_def save_def Let_def)
qed

theorem delete_comment_removes_first_of_author_witness:
  "sample_isObjectId ''p1'' \<and> sample_posts ''p1'' = Some sample_post
   \<and> delete_comment sample_isObjectId sample_posts ''u1'' ''p1'' ''c2''
       = (Response 200 (Comments [sample_comment ''c2'' ''u1'' ''second'',
                                  sample_comment ''c3'' ''u2'' ''third'']),
          sample_posts(''p1'' \<mapsto> sample_post\<lparr>comments :=
             [sample_comment ''c2'' ''u1'' ''second'', sample_comment ''c3'' ''u2'' ''third'']\<rparr>))
   \<and> (\<exists>ys c zs. comments sample_post = ys @ c # zs \<and> comment_user c = ''u1''
          \<and> (\<forall>y\<in>set ys. comment_user y \<noteq> ''u1'')
          \<and> Comments [sample_comment ''c2'' ''u1'' ''second'',
                       sample_comment ''c3'' ''u2'' ''third''] = Comments (ys @ zs))"
proof -
  have h1: "sample_isObjectId ''p1''" by (simp add: sample_isObjectId_def)
  have h2: "sample_posts ''p1'' = Some sample_post" by (simp add: sample_posts_def)
  have h3: "delete_comment sample_isObjectId sample_posts ''u1'' ''p1'' ''c2''
       = (Response 200 (Comments [sample_comment ''c2'' ''u1'' ''second'',
                                  sample_comment ''c3'' ''u2'' ''third'']),
          sample_posts(''p1'' \<mapsto> sample_post\<lparr>comments :=
             [sample_comment ''c2'' ''u1'' ''second'', sample_comment ''c3'' ''u2'' ''third'']\<rparr>))"
    by (simp add: delete_comment_def delete_comment_try_def findById_def sample_isObjectId_def
          sample_posts_def sample_post_def sample_comment_def splice_js_def save_def Let_def)
  from delete_comment_removes_first_of_author [OF h1 h2 h3] h1 h2 h3
  show ?thesis by blast
qed

text \<open>
  C2. On an existing post, deleting a comment answers 404 (not found) when no comment has
  the given identity, and 401 (unauthorized) when the comment of that identity was written
  by someone other than the principal; the third part spells out that this also holds for
  the owner of the post. In both cases the store, and so the post's comments, is unchanged.
\<close>

theorem delete_comment_failures:
  assumes "isObjectId i" and "db i = Some p"
  shows "((\<forall>c\<in>set (comments p). comment_id c \<noteq> cid) \<longrightarrow>
            delete_comment isObjectId db uid i cid
              = (Response 404 (Msg ''Comment does not Exist.''), db))
         \<and> (\<forall>c. find (\<lambda>c. comment_id c = cid) (comments p) = Some c \<and> comment_user c \<noteq> uid \<longrightarrow>
            delete_comment isObjectId db uid i cid
              = (Response 401 (Msg ''User not Authorized.''), db))
         \<and> (\<forall>c. find (\<lambda>c. comment_id c = cid) (comments p) = Some c
                \<and> comment_user c \<noteq> post_user p \<longrightarrow>
            delete_comment isObjectId db (post_user p) i cid
              = (Response 401 (Msg ''User not Authorized.''), db))"
  using assms
  by (auto simp: delete_comment_missing delete_comment_not_author)

theorem delete_comment_failures_witness:
  "sample_isObjectId ''p1'' \<and> sample_posts ''p1'' = Some sample_post
   \<and> ''c9'' \<notin> comment_id ` set (comments sample_post)
   \<and> delete_comment sample_isObjectId sample_posts ''u1'' ''p1'' ''c9''
        = (Response 404 (Msg ''Comment does not Exist.''), sample_posts)
   \<and> find (\<lambda>c. comment_id c = ''c3'') (comments sample_post)
        = Some (sample_comment ''c3'' ''u2'' ''third'')
   \<and> comment_user (sample_comment ''c3'' ''u2'' ''third'') \<noteq> post_user sample_post
   \<and> post_user sample_post = ''u1''
   \<and> delete_comment sample_isObjectId sample_posts ''u1'' ''p1'' ''c3''
        = (Response 401 (Msg ''User not Authorized.''), sample_posts)"
proof -
  have h1: "sample_isObjectId ''p1''" by (simp add: sample_isObjectId_def)
  have h2: "sample_posts ''p1'' = Some sample_post" by (simp add: sample_posts_def)
  have h3: "\<forall>c\<in>set (comments sample_post). comment_id c \<noteq> ''c9''"
    by (simp add: sample_post_def sample_comment_def)
  have h4: "find (\<lambda>c. comment_id c = ''c3'') (comments sample_post)
        = Some (sample_comment ''c3'' ''u2'' ''third'')"
    by (simp add: sample_post_def sample_comment_def)
  have h5: "comment_user (sample_comment ''c3'' ''u2'' ''third'') \<noteq> post_user sample_post"
    by (simp add: sample_post_def sample_comment_def)
  have h6: "post_user sample_post = ''u1''" by (simp add: sample_post_def)
  note t = delete_comment_failures [where isObjectId = sample_isObjectId and i = "''p1''"
      and db = sample_posts and p = sample_post, OF h1 h2]
  have a: "delete_comment sample_isObjectId sample_posts ''u1'' ''p1'' ''c9''
        = (Response 404 (Msg ''Comment does not Exist.''), sample_posts)"
    using t [where cid = "''c9''" and uid = "''u1''"] h3 by blast
  have h3': "''c9'' \<notin> comment_id ` set (comments sample_post)"
    using h3 by auto
  have b: "delete_comment sample_isObjectId sample_posts (post_user sample_post) ''p1'' ''c3''
        = (Response 401 (Msg ''User not Authorized.''), sample_posts)"
    using t [where cid = "''c3''" and uid = "''u1''"] h4 h5 by blast
  show ?thesis using h1 h2 h3' h4 h5 h6 a b by simp
qed

section \<open>Likes\<close>

text \<open>
  C3. On an existing post, a like by a user who already has an entry in \<^verbatim>\<open>likes\<close>
  answers 400 (conflict) and changes nothing; otherwise the entry \<^verbatim>\<open>{user}\<close> is put at
  the head, the post is stored and the new sequence is returned. A second like by the same
  user then answers 400 and changes nothing, so that a post without likes has exactly one
  afterwards.
\<close>

theorem like_guard:
  assumes "isObjectId i" and "db i = Some p"
  shows "((\<exists>l\<in>set (likes p). like_user l = uid) \<longrightarrow>
            like_post isObjectId db uid i = (Response 400 (Msg ''Post is already liked.''), db))
         \<and> (\<not> (\<exists>l\<in>set (likes p). like_user l = uid) \<longrightarrow>
            like_post isObjectId db uid i
              = (Response 200 (Likes (\<lparr>like_user = uid\<rparr> # likes p)),
                 db(i \<mapsto> p\<lparr>likes := \<lparr>like_user = uid\<rparr> # likes p\<rparr>))
            \<and> like_post isObjectId (snd (like_post isObjectId db uid i)) uid i
              = (Response 400 (Msg ''Post is already liked.''),
                 db(i \<mapsto> p\<lparr>likes := \<lparr>like_user = uid\<rparr> # likes p\<rparr>))
            \<and> (likes p = [] \<longrightarrow>
                 map_option (\<lambda>q. length (likes q))
                   (snd (like_post isObjectId (snd (like_post isObjectId db uid i)) uid i) i)
                   = Some 1))"
proof (intro conjI impI)
  assume "\<exists>l\<in>set (likes p). like_user l = uid"
  then show "like_post isObjectId db uid i = (Response 400 (Msg ''Post is already liked.''), db)"
    using like_post_existing [where isObjectId = isObjectId and uid = uid and db = db and i = i, OF assms]
    by simp
next
  let ?p' = "p\<lparr>likes := \<lparr>like_user = uid\<rparr> # likes p\<rparr>"
  let ?db' = "db(i \<mapsto> ?p')"
  assume fresh: "\<not> (\<exists>l\<in>set (likes p). like_user l = uid)"
  then show first: "like_post isObjectId db uid i = (Response 200 (Likes (\<lparr>like_user = uid\<rparr> # likes p)), ?db')"
    using like_post_existing [where isObjectId = isObjectId and uid = uid and db = db and i = i, OF assms]
    by simp
  have stored: "?db' i = Some ?p'" by simp
  have again: "like_post isObjectId ?db' uid i = (Response 400 (Msg ''Post is already liked.''), ?db')"
    using like_post_existing [where isObjectId = isObjectId and uid = uid and db = ?db' and i = i,
        OF assms(1) stored] by simp
  show second: "like_post isObjectId (snd (like_post isObjectId db uid i)) uid i
      = (Response 400 (Msg ''Post is already liked.''), ?db')"
    using first again by simp
  assume "likes p = []"
  then show "map_option (\<lambda>q. length (likes q))
       (snd (like_post isObjectId (snd (like_post isObjectId db uid i)) uid i) i) = Some 1"
    using second by simp
qed

theorem like_guard_witness:
  "sample_isObjectId ''p1'' \<and> sample_posts ''p1'' = Some sample_post
   \<and> \<not> (\<exists>l\<in>set (likes sample_post). like_user l = ''u2'') \<and> likes sample_post = []
   \<and> like_post sample_isObjectId sample_posts ''u2'' ''p1''
       = (Response 200 (Likes [\<lparr>like_user = ''u2''\<rparr>]),
          sample_posts(''p1'' \<mapsto> sample_post\<lparr>likes := [\<lparr>like_user = ''u2''\<rparr>]\<rparr>))
   \<and> like_post sample_isObjectId
         (snd (like_post sample_isObjectId sample_posts ''u2'' ''p1'')) ''u2'' ''p1''
       = (Response 400 (Msg ''Post is already liked.''),
          sample_posts(''p1'' \<mapsto> sample_post\<lparr>likes := [\<lparr>like_user = ''u2''\<rparr>]\<rparr>))
   \<and> map_option (\<lambda>q. length (likes q))
        (snd (like_post sample_isObjectId
           (snd (like_post sample_isObjectId sample_posts ''u2'' ''p1'')) ''u2'' ''p1'') ''p1'')
       = Some 1"
proof -
  have h1: "sample_isObjectId ''p1''" by (simp add: sample_isObjectId_def)
  have h2: "sample_posts ''p1'' = Some sample_post" by (simp add: sample_posts_def)
  have h3: "likes sample_post = []" by (simp add: sample_post_def)
  have h4: "\<not> (\<exists>l\<in>set (likes sample_post). like_user l = ''u2'')" using h3 by simp
  note t = like_guard [where isObjectId = sample_isObjectId and uid = "''u2''" and db = sample_posts
      and i = "''p1''", OF h1 h2]
  have a: "like_post sample_isObjectId sample_posts ''u2'' ''p1''
       = (Response 200 (Likes [\<lparr>like_user = ''u2''\<rparr>]),
          sample_posts(''p1'' \<mapsto> sample_post\<lparr>likes := [\<lparr>like_user = ''u2''\<rparr>]\<rparr>))"
    using t h4 unfolding h3 by blast
  have b: "like_post sample_isObjectId
         (snd (like_post sample_isObjectId sample_posts ''u2'' ''p1'')) ''u2'' ''p1''
       = (Response 400 (Msg ''Post is already liked.''),
          sample_posts(''p1'' \<mapsto> sample_post\<lparr>likes := [\<lparr>like_user = ''u2''\<rparr>]\<rparr>))"
    using t h4 unfolding h3 by blast
  have c: "map_option (\<lambda>q. length (likes q))
        (snd (like_post sample_isObjectId
           (snd (like_post sample_isObjectId sample_posts ''u2'' ''p1'')) ''u2'' ''p1'') ''p1'')
       = Some 1"
    using t h3 h4 by blast
  show ?thesis
    using h1 h2 h3 h4 a b c by (intro conjI)
qed

text \<open>
  C4. On an existing post, removing a like answers 400 (conflict) and changes nothing when
  the user has no entry in \<^verbatim>\<open>likes\<close>; otherwise exactly the first entry of that user
  leaves the sequence, the post is stored and the new sequence is returned.
\<close>

theorem unlike_guard:
  assumes "isObjectId i" and "db i = Some p"
  shows "((\<forall>l\<in>set (likes p). like_user l \<noteq> uid) \<longrightarrow>
            unlike_post isObjectId db uid i = (Response 400 (Msg ''Post is not liked yet.''), db))
         \<and> ((\<exists>l\<in>set (likes p). like_user l = uid) \<longrightarrow>
            (\<exists>ys l zs. likes p = ys @ l # zs \<and> like_user l = uid
               \<and> (\<forall>y\<in>set ys. like_user y \<noteq> uid)
               \<and> unlike_post isObjectId db uid i
                   = (Response 200 (Likes (ys @ zs)), db(i \<mapsto> p\<lparr>likes := ys @ zs\<rparr>))))"
proof (intro conjI impI)
  assume "\<forall>l\<in>set (likes p). like_user l \<noteq> uid"
  with assms show "unlike_post isObjectId db uid i = (Response 400 (Msg ''Post is not liked yet.''), db)"
    by (rule unlike_post_none)
next
  assume "\<exists>l\<in>set (likes p). like_user l = uid"
  then obtain ys l zs where sp: "likes p = ys @ l # zs" "like_user l = uid"
      "\<forall>y\<in>set ys. like_user y \<noteq> uid"
    using first_match_split [of "likes p" "\<lambda>x. like_user x = uid"] by blast
  have "unlike_post isObjectId db uid i
          = (Response 200 (Likes (ys @ zs)), db(i \<mapsto> p\<lparr>likes := ys @ zs\<rparr>))"
    using assms sp by (rule unlike_post_first)
  with sp show "\<exists>ys l zs. likes p = ys @ l # zs \<and> like_user l = uid
               \<and> (\<forall>y\<in>set ys. like_user y \<noteq> uid)
               \<and> unlike_post isObjectId db uid i
                   = (Response 200 (Likes (ys @ zs)), db(i \<mapsto> p\<lparr>likes := ys @ zs\<rparr>))"
    by blast
qed

theorem unlike_guard_witness:
  "sample_isObjectId ''p1'' \<and> sample_liked_posts ''p1'' = Some sample_liked_post
   \<and> ''u3'' \<notin> like_user ` set (likes sample_liked_post)
   \<and> unlike_post sample_isObjectId sample_liked_posts ''u3'' ''p1''
        = (Response 400 (Msg ''Post is not liked yet.''), sample_liked_posts)
   \<and> (\<exists>l\<in>set (likes sample_liked_post). like_user l = ''u2'')
   \<and> (\<exists>ys l zs. likes sample_liked_post = ys @ l # zs \<and> like_user l = ''u2''
          \<and> (\<forall>y\<in>set ys. like_user y \<noteq> ''u2'')
          \<and> unlike_post sample_isObjectId sample_liked_posts ''u2'' ''p1''
              = (Response 200 (Likes (ys @ zs)),
                 sample_liked_posts(''p1'' \<mapsto> sample_liked_post\<lparr>likes := ys @ zs\<rparr>)))
   \<and> unlike_post sample_isObjectId sample_liked_posts ''u2'' ''p1''
        = (Response 200 (Likes [\<lparr>like_user = ''u1''\<rparr>, \<lparr>like_user = ''u2''\<rparr>]),
           sample_liked_posts(''p1'' \<mapsto>
             sample_liked_post\<lparr>likes := [\<lparr>like_user = ''u1''\<rparr>, \<lparr>like_user = ''u2''\<rparr>]\<rparr>))"
proof -
  have h1: "sample_isObjectId ''p1''" by (simp add: sample_isObjectId_def)
  have h2: "sample_liked_posts ''p1'' = Some sample_liked_post"
    by (simp add: sample_liked_posts_def)
  have h3: "\<forall>l\<in>set (likes sample_liked_post). like_user l \<noteq> ''u3''"
    by (simp add: sample_liked_post_def)
  have h4: "\<exists>l\<in>set (likes sample_liked_post). like_user l = ''u2''"
    by (simp add: sample_liked_post_def)
  note t = unlike_guard [where isObjectId = sample_isObjectId and db = sample_liked_posts
      and i = "''p1''", OF h1 h2]
  have a: "unlike_post sample_isObjectId sample_liked_posts ''u3'' ''p1''
        = (Response 400 (Msg ''Post is not liked yet.''), sample_liked_posts)"
    using t [where uid = "''u3''"] h3 by blast
  have h3': "''u3'' \<notin> like_user ` set (likes sample_liked_post)"
    using h3 by auto
  have b: "\<exists>ys l zs. likes sample_liked_post = ys @ l # zs \<and> like_user l = ''u2''
          \<and> (\<forall>y\<in>set ys. like_user y \<noteq> ''u2'')
          \<and> unlike_post sample_isObjectId sample_liked_posts ''u2'' ''p1''
              = (Response 200 (Likes (ys @ zs)),
                 sample_liked_posts(''p1'' \<mapsto> sample_liked_post\<lparr>likes := ys @ zs\<rparr>))"
    using t [where uid = "''u2''"] h4 by blast
  have c: "unlike_post sample_isObjectId sample_liked_posts ''u2'' ''p1''
        = (Response 200 (Likes [\<lparr>like_user = ''u1''\<rparr>, \<lparr>like_user = ''u2''\<rparr>]),
           sample_liked_posts(''p1'' \<mapsto>
             sample_liked_post\<lparr>likes := [\<lparr>like_user = ''u1''\<rparr>, \<lparr>like_user = ''u2''\<rparr>]\<rparr>))"
    by (simp add: unlike_post_def unlike_try_def findById_def sample_isObjectId_def
          sample_liked_posts_def sample_liked_post_def splice_js_def save_def Let_def)
  show ?thesis
    using h1 h2 h3' h4 a b c by (intro conjI)
qed

section \<open>Deleting a post\<close>

text \<open>
  C5. Deleting a post answers 404 (not found) when the identifier is invalid or names no
  post, 401 (unauthorized) with the store unchanged when the post belongs to someone else,
  and otherwise removes the post, after which reading it answers 404.
\<close>

theorem delete_post_cases:
  "((\<not> isObjectId i \<or> db i = None) \<longrightarrow>
      delete_post isObjectId db uid i = (Response 404 (Msg ''Post not Found.''), db))
   \<and> (\<forall>p. isObjectId i \<and> db i = Some p \<and> post_user p \<noteq> uid \<longrightarrow>
      delete_post isObjectId db uid i
        = (Response 401 (Msg ''User not Authorized to Delete.''), db))
   \<and> (\<forall>p. isObjectId i \<and> db i = Some p \<and> post_user p = uid \<longrightarrow>
      delete_post isObjectId db uid i = (Response 200 (Msg ''Post Removed.''), db(i := None))
      \<and> get_post isObjectId (snd (delete_post isObjectId db uid i)) i
          = Response 404 (Msg ''Post not Found.''))"
proof (intro conjI allI impI)
  assume "\<not> isObjectId i \<or> db i = None"
  then show "delete_post isObjectId db uid i = (Response 404 (Msg ''Post not Found.''), db)"
    by (simp add: delete_post_absent post_not_found_def)
next
  fix p assume "isObjectId i \<and> db i = Some p \<and> post_user p \<noteq> uid"
  then show "delete_post isObjectId db uid i
        = (Response 401 (Msg ''User not Authorized to Delete.''), db)"
    by (simp add: delete_post_existing)
next
  fix p assume a: "isObjectId i \<and> db i = Some p \<and> post_user p = uid"
  then show r: "delete_post isObjectId db uid i
      = (Response 200 (Msg ''Post Removed.''), db(i := None))"
    by (simp add: delete_post_existing)
  have "get_post isObjectId (db(i := None)) i = post_not_found"
    by (rule get_post_absent) simp
  then show "get_post isObjectId (snd (delete_post isObjectId db uid i)) i
          = Response 404 (Msg ''Post not Found.'')"
    by (simp add: r post_not_found_def)
qed

theorem delete_post_cases_witness:
  "\<not> sample_isObjectId ''bad''
   \<and> delete_post sample_isObjectId sample_posts ''u1'' ''bad''
       = (Response 404 (Msg ''Post not Found.''), sample_posts)
   \<and> sample_isObjectId ''p2'' \<and> sample_posts ''p2'' = None
   \<and> delete_post sample_isObjectId sample_posts ''u1'' ''p2''
       = (Response 404 (Msg ''Post not Found.''), sample_posts)
   \<and> sample_isObjectId ''p1'' \<and> sample_posts ''p1'' = Some sample_post
   \<and> post_user sample_post \<noteq> ''u2''
   \<and> delete_post sample_isObjectId sample_posts ''u2'' ''p1''
       = (Response 401 (Msg ''User not Authorized to Delete.''), sample_posts)
   \<and> post_user sample_post = ''u1''
   \<and> delete_post sample_isObjectId sample_posts ''u1'' ''p1''
       = (Response 200 (Msg ''Post Removed.''), sample_posts(''p1'' := None))
   \<and> get_post sample_isObjectId
        (snd (delete_post sample_isObjectId sample_posts ''u1'' ''p1'')) ''p1''
       = Response 404 (Msg ''Post not Found.'')"
proof -
  have h0: "\<not> sample_isObjectId ''bad''"
    by (simp add: sample_isObjectId_def)
  have h0': "sample_posts ''p2'' = None"
    by (simp add: sample_posts_def)
  have h0'': "sample_isObjectId ''p2''"
    by (simp add: sample_isObjectId_def)
  have h1: "sample_isObjectId ''p1''" by (simp add: sample_isObjectId_def)
  have h2: "sample_posts ''p1'' = Some sample_post" by (simp add: sample_posts_def)
  have h3: "post_user sample_post \<noteq> ''u2''" by (simp add: sample_post_def)
  have h4: "post_user sample_post = ''u1''" by (simp add: sample_post_def)
  have a: "delete_post sample_isObjectId sample_posts ''u1'' ''bad''
       = (Response 404 (Msg ''Post not Found.''), sample_posts)"
    using delete_post_cases [where isObjectId = sample_isObjectId and db = sample_posts
        and uid = "''u1''" and i = "''bad''"] h0 by blast
  have a': "delete_post sample_isObjectId sample_posts ''u1'' ''p2''
       = (Response 404 (Msg ''Post not Found.''), sample_posts)"
    using delete_post_cases [where isObjectId = sample_isObjectId and db = sample_posts
        and uid = "''u1''" and i = "''p2''"] h0' by blast
  have b: "delete_post sample_isObjectId sample_posts ''u2'' ''p1''
       = (Response 401 (Msg ''User not Authorized to Delete.''), sample_posts)"
    using delete_post_cases [where isObjectId = sample_isObjectId and db = sample_posts
        and uid = "''u2''" and i = "''p1''"] h1 h2 h3 by blast
  have c: "delete_post sample_isObjectId sample_posts ''u1'' ''p1''
       = (Response 200 (Msg ''Post Removed.''), sample_posts(''p1'' := None))
     \<and> get_post sample_isObjectId
        (snd (delete_post sample_isObjectId sample_posts ''u1'' ''p1'')) ''p1''
       = Response 404 (Msg ''Post not Found.'')"
    using delete_post_cases [where isObjectId = sample_isObjectId and db = sample_posts
        and uid = "''u1''" and i = "''p1''"] h1 h2 h4 by blast
  show ?thesis
    using h0 h0' h0'' h1 h2 h3 h4 a a' b c by (intro conjI) blast+
qed

text \<open>
  C10. For an identifier that is invalid or names no post, liking and unliking do not
  answer 404: the failed read of the post ends in the generic answer 500, with the store
  unchanged, where reading and deleting the post answer 404 for the same identifier.
\<close>

theorem like_unlike_absent_post:
  assumes "\<not> isObjectId i \<or> db i = None"
  shows "like_post isObjectId db uid i = (Response 500 (Text ''Server Error.''), db)
         \<and> unlike_post isObjectId db uid i = (Response 500 (Text ''Server Error.''), db)
         \<and> status_code (fst (like_post isObjectId db uid i)) \<noteq> 404
         \<and> status_code (fst (unlike_post isObjectId db uid i)) \<noteq> 404
         \<and> get_post isObjectId db i = Response 404 (Msg ''Post not Found.'')
         \<and> fst (delete_post isObjectId db uid i) = Response 404 (Msg ''Post not Found.'')"
  using assms
  by (simp add: like_post_absent unlike_post_absent get_post_absent delete_post_absent
        server_error_def post_not_found_def)

theorem like_unlike_absent_post_witness:
  "\<not> sample_isObjectId ''bad''
   \<and> like_post sample_isObjectId sample_posts ''u1'' ''bad''
       = (Response 500 (Text ''Server Error.''), sample_posts)
   \<and> unlike_post sample_isObjectId sample_posts ''u1'' ''bad''
       = (Response 500 (Text ''Server Error.''), sample_posts)
   \<and> get_post sample_isObjectId sample_posts ''bad'' = Response 404 (Msg ''Post not Found.'')
   \<and> fst (delete_post sample_isObjectId sample_posts ''u1'' ''bad'')
       = Response 404 (Msg ''Post not Found.'')
   \<and> sample_isObjectId ''p2'' \<and> sample_posts ''p2'' = None
   \<and> like_post sample_isObjectId sample_posts ''u1'' ''p2''
       = (Response 500 (Text ''Server Error.''), sample_posts)
   \<and> unlike_post sample_isObjectId sample_posts ''u1'' ''p2''
       = (Response 500 (Text ''Server Error.''), sample_posts)
   \<and> get_post sample_isObjectId sample_posts ''p2'' = Response 404 (Msg ''Post not Found.'')
   \<and> fst (delete_post sample_isObjectId sample_posts ''u1'' ''p2'')
       = Response 404 (Msg ''Post not Found.'')"
proof -
  have h0: "\<not> sample_isObjectId ''bad''"
    by (simp add: sample_isObjectId_def)
  have h0': "sample_posts ''p2'' = None"
    by (simp add: sample_posts_def)
  have h0'': "sample_isObjectId ''p2''"
    by (simp add: sample_isObjectId_def)
  show ?thesis
    using like_unlike_absent_post [where isObjectId = sample_isObjectId and db = sample_posts
        and uid = "''u1''" and i = "''bad''"]
      like_unlike_absent_post [where isObjectId = sample_isObjectId and db = sample_posts
        and uid = "''u1''" and i = "''p2''"] h0 h0' h0''
    by (intro conjI) blast+
qed

section \<open>Facts about the profile routes\<close>

lemma check_not_empty_Nil: "(check_not_empty v m = []) = truthy v"
  by (simp add: check_not_empty_def truthy_def split: option.splits)

lemma pf_user_build: "pf_user (build_profileFields uid b) = uid"
  by (simp add: build_profileFields_def)

lemma pf_status_build: "truthy (b_status b) \<Longrightarrow> pf_status (build_profileFields uid b) = b_status b"
  by (simp add: build_profileFields_def if_truthy_def)

lemma pf_skills_build:
  "b_skills b = Some s \<Longrightarrow> s \<noteq> [] \<Longrightarrow>
     pf_skills (build_profileFields uid b) = Some (map trim (split CHR '','' s))"
  by (simp add: build_profileFields_def truthy_def)

lemma user_set_fields: "user (set_fields f p) = pf_user f"
  by (simp add: set_fields_def)

lemma profile_id_set_fields: "profile_id (set_fields f p) = profile_id p"
  by (simp add: set_fields_def)

lemma findOneAndUpdate_users:
  "pf_user f = uid \<Longrightarrow> map user (snd (findOneAndUpdate uid f db)) = map user db"
  by (induction db) (auto simp: user_set_fields split: prod.splits)

lemma findOneAndUpdate_found:
  "find (\<lambda>p. user p = uid) db = Some p \<Longrightarrow>
     fst (findOneAndUpdate uid f db) = Some (set_fields f p)"
  by (induction db) (auto split: prod.splits if_splits)

lemma findOneAndUpdate_find:
  "pf_user f = uid \<Longrightarrow> find (\<lambda>p. user p = uid) db = Some p \<Longrightarrow>
     find (\<lambda>p. user p = uid) (snd (findOneAndUpdate uid f db)) = Some (set_fields f p)"
  by (induction db) (auto simp: user_set_fields split: prod.splits if_splits)

lemma count_users: "length (filter (\<lambda>p. user p = u) db) = length (filter (\<lambda>v. v = u) (map user db))"
  by (induction db) auto

lemma find_None_count: "find (\<lambda>p. user p = u) db = None \<Longrightarrow> length (filter (\<lambda>p. user p = u) db) = 0"
  by (simp add: find_None_iff filter_empty_conv)

lemma upsert_profile_rejected:
  "\<not> (truthy (b_status b) \<and> truthy (b_skills b)) \<Longrightarrow> snd (upsert_profile newId db uid b) = db"
  by (auto simp: upsert_profile_def Let_def check_not_empty_Nil)

lemma upsert_profile_update:
  assumes "truthy (b_status b)" and "truthy (b_skills b)" and "findOne uid db = Some p"
  shows "upsert_profile newId db uid b =
           (PResponse 200 (ProfileDoc (set_fields (build_profileFields uid b) p)),
            snd (findOneAndUpdate uid (build_profileFields uid b) db))"
proof -
  have "fst (findOneAndUpdate uid (build_profileFields uid b) db)
          = Some (set_fields (build_profileFields uid b) p)"
    using assms(3) by (simp add: findOne_def findOneAndUpdate_found)
  then show ?thesis
    using assms
    by (auto simp: upsert_profile_def upsert_profile_try_def Let_def check_not_empty_Nil
          split: prod.splits option.splits)
qed

lemma upsert_profile_create:
  assumes "truthy (b_status b)" and "truthy (b_skills b)" and "findOne uid db = None"
  shows "\<exists>p. new_Profile newId (build_profileFields uid b) = Inr p
           \<and> upsert_profile newId db uid b = (PResponse 200 (ProfileDoc p), db @ [p])"
proof -
  obtain s where "b_status b = Some s"
    using assms(1) by (auto simp: truthy_def split: option.splits)
  then have "pf_status (build_profileFields uid b) = Some s"
    using assms(1) by (simp add: pf_status_build)
  then obtain p where "new_Profile newId (build_profileFields uid b) = Inr p"
    by (simp add: new_Profile_def)
  then show ?thesis
    using assms
    by (simp add: upsert_profile_def upsert_profile_try_def Let_def check_not_empty_Nil)
qed

lemma new_Profile_fields:
  "new_Profile newId f = Inr p \<Longrightarrow> profile_id p = newId \<and> user p = pf_user f
     \<and> skills p = (case pf_skills f of None \<Rightarrow> [] | Some v \<Rightarrow> v)"
  by (auto simp: new_Profile_def split: option.splits)

lemma upsert_profile_count:
  "length (filter (\<lambda>p. user p = u) (snd (upsert_profile newId db uid b)))
     = (if u = uid \<and> truthy (b_status b) \<and> truthy (b_skills b) \<and> findOne uid db = None
        then 1 else length (filter (\<lambda>p. user p = u) db))"
proof (cases "truthy (b_status b) \<and> truthy (b_skills b)")
  case False
  then show ?thesis using upsert_profile_rejected [OF False, of newId db uid] by auto
next
  case ok: True
  show ?thesis
  proof (cases "findOne uid db")
    case None
    then obtain p where p: "new_Profile newId (build_profileFields uid b) = Inr p"
        "upsert_profile newId db uid b = (PResponse 200 (ProfileDoc p), db @ [p])"
      using upsert_profile_create ok by blast
    have "user p = uid" using new_Profile_fields [OF p(1)] by (simp add: pf_user_build)
    moreover have "length (filter (\<lambda>p. user p = uid) db) = 0"
      using None by (simp add: findOne_def find_None_count)
    ultimately show ?thesis using None ok p(2) by auto
  next
    case (Some q)
    have "upsert_profile newId db uid b =
           (PResponse 200 (ProfileDoc (set_fields (build_profileFields uid b) q)),
            snd (findOneAndUpdate uid (build_profileFields uid b) db))"
      using ok Some by (simp add: upsert_profile_update)
    moreover have "map user (snd (findOneAndUpdate uid (build_profileFields uid b) db)) = map user db"
      by (rule findOneAndUpdate_users) (simp add: pf_user_build)
    ultimately show ?thesis using Some
      by (simp add: count_users)
  qed
qed

lemma upsert_profile_count_le:
  "length (filter (\<lambda>p. user p = u) db) \<le> 1 \<Longrightarrow>
     length (filter (\<lambda>p. user p = u) (snd (upsert_profile newId db uid b))) \<le> 1"
  by (simp add: upsert_profile_count)

lemma upsert_profiles_count_le:
  "length (filter (\<lambda>p. user p = u) db) \<le> 1 \<Longrightarrow>
     length (filter (\<lambda>p. user p = u) (upsert_profiles db calls)) \<le> 1"
proof (induction calls arbitrary: db)
  case Nil
  then show ?case by simp
next
  case (Cons c calls)
  obtain newId uid b where c: "c = (newId, uid, b)" by (cases c)
  show ?case
    unfolding c upsert_profiles.simps
    by (rule Cons.IH) (rule upsert_profile_count_le [OF Cons.prems])
qed

lemma sample_created:
  "upsert_profile ''a1'' [] ''u1'' sample_body = (PResponse 200 (ProfileDoc sample_profile), [sample_profile])"
  by (simp add: upsert_profile_def upsert_profile_try_def findOne_def new_Profile_def
        build_profileFields_def sample_body_def sample_profile_def check_not_empty_def
        truthy_def if_truthy_def trim_def is_whitespace_def Let_def)

lemma findOneAndUpdate_last:
  "find (\<lambda>p. user p = uid) db = None \<Longrightarrow> user p = uid \<Longrightarrow>
     findOneAndUpdate uid f (db @ [p]) = (Some (set_fields f p), db @ [set_fields f p])"
  by (induction db) (auto split: if_splits)

lemma findOne_last:
  "findOne uid db = None \<Longrightarrow> user p = uid \<Longrightarrow> findOne uid (db @ [p]) = Some p"
  unfolding findOne_def by (induction db) (auto split: if_splits)

lemma sample_updated:
  "upsert_profile ''a2'' [sample_profile] ''u1'' sample_update
     = (PResponse 200 (ProfileDoc (sample_profile\<lparr>status := ''Lead'', skills := [''node''],
           social := \<lparr> youtube = None, facebook = None,
                       twitter = Some ''https://twitter.example/u1'', instagram = None,
                       linkedin = None \<rparr>\<rparr>)),
        [sample_profile\<lparr>status := ''Lead'', skills := [''node''],
           social := \<lparr> youtube = None, facebook = None,
                       twitter = Some ''https://twitter.example/u1'', instagram = None,
                       linkedin = None \<rparr>\<rparr>])"
  by (simp add: upsert_profile_def upsert_profile_try_def findOne_def set_fields_def or_else_def
        build_profileFields_def sample_update_def sample_profile_def check_not_empty_def
        truthy_def if_truthy_def trim_def is_whitespace_def Let_def)

lemma upsert_profile_stored:
  assumes "truthy (b_status b)" and "truthy (b_skills b)"
  shows "\<exists>p. upsert_profile newId db uid b = (PResponse 200 (ProfileDoc p), snd (upsert_profile newId db uid b))
           \<and> findOne uid (snd (upsert_profile newId db uid b)) = Some p
           \<and> (case findOne uid db of
                 None \<Rightarrow> new_Profile newId (build_profileFields uid b) = Inr p
               | Some q \<Rightarrow> p = set_fields (build_profileFields uid b) q)"
proof (cases "findOne uid db")
  case None
  then obtain p where p: "new_Profile newId (build_profileFields uid b) = Inr p"
      "upsert_profile newId db uid b = (PResponse 200 (ProfileDoc p), db @ [p])"
    using upsert_profile_create assms by blast
  have "user p = uid" using new_Profile_fields [OF p(1)] by (simp add: pf_user_build)
  then have "findOne uid (db @ [p]) = Some p" using None by (simp add: findOne_last)
  with p None show ?thesis by simp
next
  case (Some q)
  let ?f = "build_profileFields uid b"
  have u: "upsert_profile newId db uid b =
           (PResponse 200 (ProfileDoc (set_fields ?f q)), snd (findOneAndUpdate uid ?f db))"
    using assms Some by (simp add: upsert_profile_update)
  have "findOne uid (snd (findOneAndUpdate uid ?f db)) = Some (set_fields ?f q)"
    using Some unfolding findOne_def by (simp add: findOneAndUpdate_find pf_user_build)
  with u Some show ?thesis by simp
qed

lemma save_profile_find:
  "find (\<lambda>q. user q = uid) db = Some p \<Longrightarrow> user p' = uid \<Longrightarrow> profile_id p' = profile_id p \<Longrightarrow>
     find (\<lambda>q. user q = uid) (save_profile p' db) = Some p'"
  unfolding save_profile_def by (induction db) (auto split: if_splits)

lemma add_experience_existing:
  assumes "findOne uid db = Some p"
    and "truthy (eb_title b)" and "truthy (eb_company b)" and "truthy (eb_from b)"
  shows "add_experience newId db uid b =
           (PResponse 200 (ProfileDoc (p\<lparr>experience := newExp newId b # experience p\<rparr>)),
            save_profile (p\<lparr>experience := newExp newId b # experience p\<rparr>) db)"
  using assms
  by (simp add: add_experience_def add_experience_try_def check_not_empty_Nil unshift_def Let_def)

lemma add_experience_findOne:
  assumes "findOne uid db = Some p"
    and "truthy (eb_title b)" and "truthy (eb_company b)" and "truthy (eb_from b)"
  shows "findOne uid (snd (add_experience newId db uid b))
           = Some (p\<lparr>experience := newExp newId b # experience p\<rparr>)"
proof -
  have "user p = uid"
    using assms(1) by (auto simp: findOne_def find_Some_iff)
  then have "find (\<lambda>q. user q = uid) (save_profile (p\<lparr>experience := newExp newId b # experience p\<rparr>) db)
      = Some (p\<lparr>experience := newExp newId b # experience p\<rparr>)"
    using assms(1) by (intro save_profile_find) (simp_all add: findOne_def)
  then show ?thesis
    using add_experience_existing [OF assms, of newId] by (simp add: findOne_def)
qed

lemma add_experiences_findOne:
  assumes "findOne uid db = Some p"
    and "\<forall>(i, e)\<in>set entries. truthy (eb_title e) \<and> truthy (eb_company e) \<and> truthy (eb_from e)"
  shows "findOne uid (add_experiences db uid entries)
           = Some (p\<lparr>experience := rev (map (\<lambda>(i, e). newExp i e) entries) @ experience p\<rparr>)"
  using assms
proof (induction entries arbitrary: db p)
  case Nil
  then show ?case by simp
next
  case (Cons x entries)
  obtain i e where x: "x = (i, e)" by (cases x)
  let ?p = "p\<lparr>experience := newExp i e # experience p\<rparr>"
  have ok: "truthy (eb_title e)" "truthy (eb_company e)" "truthy (eb_from e)"
    using Cons.prems(2) by (simp_all add: x)
  have step: "findOne uid (snd (add_experience i db uid e)) = Some ?p"
    using Cons.prems(1) ok by (rule add_experience_findOne)
  have rest: "\<forall>(i, e)\<in>set entries. truthy (eb_title e) \<and> truthy (eb_company e) \<and> truthy (eb_from e)"
    using Cons.prems(2) by simp
  show ?case
    using Cons.IH [OF step rest] by (simp add: x)
qed

lemma upsert_profile_update_fields:
  assumes "truthy (b_status b)" and "truthy (b_skills b)" and "findOne uid db = Some q"
  shows "\<exists>p. fst (upsert_profile newId db uid b) = PResponse 200 (ProfileDoc p)
           \<and> findOne uid (snd (upsert_profile newId db uid b)) = Some p
           \<and> profile_id p = profile_id q
           \<and> company p = (if truthy (b_company b) then b_company b else company q)
           \<and> website p = (if truthy (b_website b) then b_website b else website q)
           \<and> location p = (if truthy (b_location b) then b_location b else location q)
           \<and> bio p = (if truthy (b_bio b) then b_bio b else bio q)
           \<and> githubusername p = (if truthy (b_githubusername b) then b_githubusername b else githubusername q)
           \<and> experience p = experience q \<and> education p = education q
           \<and> social p = \<lparr> youtube = if_truthy (b_youtube b), facebook = if_truthy (b_facebook b),
                           twitter = if_truthy (b_twitter b), instagram = if_truthy (b_instagram b),
                           linkedin = if_truthy (b_linkedin b) \<rparr>"
proof -
  let ?f = "build_profileFields uid b"
  obtain p where p: "upsert_profile newId db uid b
        = (PResponse 200 (ProfileDoc p), snd (upsert_profile newId db uid b))"
      "findOne uid (snd (upsert_profile newId db uid b)) = Some p"
      "case findOne uid db of
         None \<Rightarrow> new_Profile newId ?f = Inr p
       | Some q \<Rightarrow> p = set_fields ?f q"
    using upsert_profile_stored [OF assms(1,2), of newId db uid] by blast
  then have eq: "p = set_fields ?f q" using assms(3) by simp
  have "fst (upsert_profile newId db uid b) = PResponse 200 (ProfileDoc p)"
    using p(1) by (metis fst_conv)
  moreover have "company p = (if truthy (b_company b) then b_company b else company q)"
    "website p = (if truthy (b_website b) then b_website b else website q)"
    "location p = (if truthy (b_location b) then b_location b else location q)"
    "bio p = (if truthy (b_bio b) then b_bio b else bio q)"
    "githubusername p = (if truthy (b_githubusername b) then b_githubusername b else githubusername q)"
    unfolding eq
    by (auto simp: set_fields_def build_profileFields_def or_else_def if_truthy_def truthy_def
          split: option.splits)
  moreover have "profile_id p = profile_id q" "experience p = experience q" "education p = education q"
    unfolding eq by (simp_all add: set_fields_def)
  moreover have "social p = \<lparr> youtube = if_truthy (b_youtube b), facebook = if_truthy (b_facebook b),
                           twitter = if_truthy (b_twitter b), instagram = if_truthy (b_instagram b),
                           linkedin = if_truthy (b_linkedin b) \<rparr>"
    unfolding eq by (simp add: set_fields_def build_profileFields_def)
  ultimately show ?thesis using p(2) by blast
qed

lemma new_Profile_status:
  "new_Profile newId f = Inr p \<Longrightarrow> pf_status f = Some (status p)"
  by (auto simp: new_Profile_def split: option.splits)

lemma set_fields_written:
  "status (set_fields f p) = (case pf_status f of None \<Rightarrow> status p | Some v \<Rightarrow> v)"
  "skills (set_fields f p) = (case pf_skills f of None \<Rightarrow> skills p | Some v \<Rightarrow> v)"
  "social (set_fields f p) = pf_social f"
  "experience (set_fields f p) = experience p"
  "education (set_fields f p) = education p"
  by (simp_all add: set_fields_def)

lemma set_fields_optional:
  "company (set_fields (build_profileFields uid b) p)
     = (if truthy (b_company b) then b_company b else company p)"
  "website (set_fields (build_profileFields uid b) p)
     = (if truthy (b_website b) then b_website b else website p)"
  "location (set_fields (build_profileFields uid b) p)
     = (if truthy (b_location b) then b_location b else location p)"
  "bio (set_fields (build_profileFields uid b) p)
     = (if truthy (b_bio b) then b_bio b else bio p)"
  "githubusername (set_fields (build_profileFields uid b) p)
     = (if truthy (b_githubusername b) then b_githubusername b else githubusername p)"
  by (auto simp: set_fields_def build_profileFields_def or_else_def if_truthy_def truthy_def
        split: option.splits)

lemma pf_social_build:
  "pf_social (build_profileFields uid b)
     = \<lparr> youtube = if_truthy (b_youtube b), facebook = if_truthy (b_facebook b),
         twitter = if_truthy (b_twitter b), instagram = if_truthy (b_instagram b),
         linkedin = if_truthy (b_linkedin b) \<rparr>"
  by (simp add: build_profileFields_def)

subsection \<open>Splitting and trimming\<close>

lemma split_not_Nil: "split sep s \<noteq> []"
  by (induction s) (auto split: list.splits)

lemma join_split: "join [sep] (split sep s) = s"
proof (induction s)
  case Nil
  then show ?case by simp
next
  case (Cons c cs)
  obtain piece pieces where sp: "split sep cs = piece # pieces"
    using split_not_Nil [of sep cs] by (cases "split sep cs") auto
  show ?case
    using Cons.IH by (cases pieces) (auto simp: sp)
qed

lemma split_pieces_no_sep: "piece \<in> set (split sep s) \<Longrightarrow> sep \<notin> set piece"
  by (induction s arbitrary: piece) (auto split: list.splits if_splits)

lemma length_split: "length (split sep s) = Suc (length (filter (\<lambda>c. c = sep) s))"
  by (induction s) (auto split: list.splits simp: split_not_Nil)

lemma trim_decomposition:
  "\<exists>l r. s = l @ trim s @ r \<and> list_all is_whitespace l \<and> list_all is_whitespace r"
proof -
  let ?l = "takeWhile is_whitespace s"
  let ?m = "dropWhile is_whitespace s"
  let ?r = "rev (takeWhile is_whitespace (rev ?m))"
  have "rev ?m = takeWhile is_whitespace (rev ?m) @ dropWhile is_whitespace (rev ?m)"
    by simp
  then have "?m = rev (dropWhile is_whitespace (rev ?m)) @ ?r"
    by (metis rev_append rev_rev_ident)
  then have m: "?m = trim s @ ?r" by (simp add: trim_def)
  have "s = ?l @ ?m" by simp
  with m have "s = ?l @ trim s @ ?r" by simp
  moreover have "list_all is_whitespace ?l"
    by (simp add: list_all_iff) (meson set_takeWhileD)
  moreover have "list_all is_whitespace ?r"
    by (simp add: list_all_iff) (meson set_takeWhileD)
  ultimately show ?thesis by blast
qed

lemma trim_ends:
  assumes "trim s \<noteq> []"
  shows "\<not> is_whitespace (hd (trim s)) \<and> \<not> is_whitespace (last (trim s))"
proof -
  let ?m = "dropWhile is_whitespace s"
  let ?d = "dropWhile is_whitespace (rev ?m)"
  have t: "trim s = rev ?d" by (simp add: trim_def)
  with assms have d: "?d \<noteq> []" by simp
  then have "\<not> is_whitespace (hd ?d)" by (rule hd_dropWhile)
  then have l: "\<not> is_whitespace (last (trim s))"
    using d by (simp add: t last_rev)
  have "?m \<noteq> []"
  proof
    assume "?m = []"
    then have "?d = []" by (simp only: rev.simps dropWhile.simps)
    with d show False by simp
  qed
  then have hm: "\<not> is_whitespace (hd ?m)" by (rule hd_dropWhile)
  have "rev ?m = takeWhile is_whitespace (rev ?m) @ ?d" by simp
  then have "?m = rev ?d @ rev (takeWhile is_whitespace (rev ?m))"
    by (metis rev_append rev_rev_ident)
  then have "hd ?m = hd (rev ?d)" using d by (metis hd_append2 rev_is_Nil_conv)
  with hm have "\<not> is_whitespace (hd (trim s))" by (simp add: t)
  with l show ?thesis by simp
qed

section \<open>The profile upsert\<close>

text \<open>
  C6, evaluated where it fails. The profile of the sample user has a company and a
  YouTube link. An upsert whose body names neither keeps the company, as it keeps every
  top-level optional field, but the YouTube link is gone: the update always carries the key
  \<^verbatim>\<open>social\<close>, holding only the links of this request, and replaces the stored
  sub-record with it.
\<close>

theorem upsert_profile_clears_absent_social:
  "upsert_profile ''a1'' [] ''u1'' sample_body
     = (PResponse 200 (ProfileDoc sample_profile), [sample_profile])
   \<and> youtube (social sample_profile) = Some ''https://youtube.example/u1''
   \<and> company sample_profile = Some ''Acme''
   \<and> b_youtube sample_update = None \<and> b_company sample_update = None
   \<and> (\<exists>p. upsert_profile ''a2'' [sample_profile] ''u1'' sample_update
             = (PResponse 200 (ProfileDoc p), [p])
          \<and> company p = Some ''Acme''
          \<and> youtube (social p) = None
          \<and> youtube (social p) \<noteq> youtube (social sample_profile))"
proof -
  have "youtube (social sample_profile) = Some ''https://youtube.example/u1''"
    "company sample_profile = Some ''Acme''"
    by (simp_all add: sample_profile_def)
  moreover have "b_youtube sample_update = None" "b_company sample_update = None"
    by (simp_all add: sample_update_def)
  moreover have "\<exists>p. upsert_profile ''a2'' [sample_profile] ''u1'' sample_update
             = (PResponse 200 (ProfileDoc p), [p])
          \<and> company p = Some ''Acme''
          \<and> youtube (social p) = None
          \<and> youtube (social p) \<noteq> youtube (social sample_profile)"
    unfolding sample_updated by (simp add: sample_profile_def)
  ultimately show ?thesis using sample_created by (intro conjI)
qed

text \<open>
  C7. Requests handled one after the other never leave two profiles of one user: if the
  store holds at most one profile of a user, it still does after any sequence of upserts,
  by whatever principals; from the empty store this holds outright. When a user without
  profile upserts twice with accepted bodies, the first request appends one document with
  the fresh identity, holding the status and skills of the first body. The second request
  adds no document: it rewrites that document in place, identity and owner kept. Afterwards
  the document holds the status and the split and trimmed skills of the second body, each
  top-level optional field of the second body where it is given and the old value where it
  is not, the links of the second body as \<^verbatim>\<open>social\<close>, and the old experience and
  education.
\<close>

theorem upsert_profile_single_document:
  "(length (filter (\<lambda>p. user p = uid) db) \<le> 1 \<longrightarrow>
      length (filter (\<lambda>p. user p = uid) (upsert_profiles db calls)) \<le> 1)
   \<and> length (filter (\<lambda>p. user p = uid) (upsert_profiles [] calls)) \<le> 1
   \<and> (findOne uid db = None
        \<and> b_status b1 = Some s1 \<and> s1 \<noteq> [] \<and> b_skills b1 = Some k1 \<and> k1 \<noteq> []
        \<and> b_status b2 = Some s2 \<and> s2 \<noteq> [] \<and> b_skills b2 = Some k2 \<and> k2 \<noteq> [] \<longrightarrow>
      (\<exists>p1 p2.
         upsert_profile id1 db uid b1 = (PResponse 200 (ProfileDoc p1), db @ [p1])
         \<and> profile_id p1 = id1 \<and> user p1 = uid
         \<and> status p1 = s1 \<and> skills p1 = map trim (split CHR '','' k1)
         \<and> upsert_profile id2 (db @ [p1]) uid b2 = (PResponse 200 (ProfileDoc p2), db @ [p2])
         \<and> p2 = set_fields (build_profileFields uid b2) p1
         \<and> profile_id p2 = id1 \<and> user p2 = uid
         \<and> status p2 = s2 \<and> skills p2 = map trim (split CHR '','' k2)
         \<and> company p2 = (if truthy (b_company b2) then b_company b2 else company p1)
         \<and> website p2 = (if truthy (b_website b2) then b_website b2 else website p1)
         \<and> location p2 = (if truthy (b_location b2) then b_location b2 else location p1)
         \<and> bio p2 = (if truthy (b_bio b2) then b_bio b2 else bio p1)
         \<and> githubusername p2
             = (if truthy (b_githubusername b2) then b_githubusername b2 else githubusername p1)
         \<and> social p2
             = \<lparr> youtube = if_truthy (b_youtube b2), facebook = if_truthy (b_facebook b2),
                 twitter = if_truthy (b_twitter b2), instagram = if_truthy (b_instagram b2),
                 linkedin = if_truthy (b_linkedin b2) \<rparr>
         \<and> experience p2 = experience p1 \<and> education p2 = education p1))"
proof (intro conjI impI)
  assume "length (filter (\<lambda>p. user p = uid) db) \<le> 1"
  then show "length (filter (\<lambda>p. user p = uid) (upsert_profiles db calls)) \<le> 1"
    by (rule upsert_profiles_count_le)
next
  show "length (filter (\<lambda>p. user p = uid) (upsert_profiles [] calls)) \<le> 1"
    by (rule upsert_profiles_count_le) simp
next
  assume a: "findOne uid db = None
        \<and> b_status b1 = Some s1 \<and> s1 \<noteq> [] \<and> b_skills b1 = Some k1 \<and> k1 \<noteq> []
        \<and> b_status b2 = Some s2 \<and> s2 \<noteq> [] \<and> b_skills b2 = Some k2 \<and> k2 \<noteq> []"
  then have ok1: "truthy (b_status b1)" "truthy (b_skills b1)"
    and ok2: "truthy (b_status b2)" "truthy (b_skills b2)"
    by (simp_all add: truthy_def)
  from a have none: "findOne uid db = None" by simp
  let ?f1 = "build_profileFields uid b1"
  let ?f2 = "build_profileFields uid b2"
  obtain p1 where p1: "new_Profile id1 ?f1 = Inr p1"
      "upsert_profile id1 db uid b1 = (PResponse 200 (ProfileDoc p1), db @ [p1])"
    using upsert_profile_create [OF ok1 none, of id1] by blast
  have ids: "profile_id p1 = id1" "user p1 = uid"
    using new_Profile_fields [OF p1(1)] by (simp_all add: pf_user_build)
  have "pf_status ?f1 = Some s1"
    using a ok1 by (simp add: pf_status_build)
  then have st1: "status p1 = s1"
    using new_Profile_status [OF p1(1)] by simp
  have "pf_skills ?f1 = Some (map trim (split CHR '','' k1))"
    using a by (simp add: pf_skills_build)
  then have sk1: "skills p1 = map trim (split CHR '','' k1)"
    using new_Profile_fields [OF p1(1)] by simp
  have found: "findOne uid (db @ [p1]) = Some p1"
    using a ids(2) by (simp add: findOne_last)
  define p2 where "p2 = set_fields ?f2 p1"
  have "findOneAndUpdate uid ?f2 (db @ [p1]) = (Some p2, db @ [p2])"
    using a ids(2) unfolding p2_def by (simp add: findOneAndUpdate_last findOne_def)
  then have second: "upsert_profile id2 (db @ [p1]) uid b2
      = (PResponse 200 (ProfileDoc p2), db @ [p2])"
    using ok2 found upsert_profile_update [of b2 uid "db @ [p1]" p1 id2]
    unfolding p2_def by simp
  have ids2: "profile_id p2 = id1" "user p2 = uid"
    unfolding p2_def using ids by (simp_all add: profile_id_set_fields user_set_fields pf_user_build)
  have "pf_status ?f2 = Some s2"
    using a ok2 by (simp add: pf_status_build)
  then have st2: "status p2 = s2"
    unfolding p2_def by (simp add: set_fields_written)
  have "pf_skills ?f2 = Some (map trim (split CHR '','' k2))"
    using a by (simp add: pf_skills_build)
  then have sk2: "skills p2 = map trim (split CHR '','' k2)"
    unfolding p2_def by (simp add: set_fields_written)
  have opt: "company p2 = (if truthy (b_company b2) then b_company b2 else company p1)"
    "website p2 = (if truthy (b_website b2) then b_website b2 else website p1)"
    "location p2 = (if truthy (b_location b2) then b_location b2 else location p1)"
    "bio p2 = (if truthy (b_bio b2) then b_bio b2 else bio p1)"
    "githubusername p2
       = (if truthy (b_githubusername b2) then b_githubusername b2 else githubusername p1)"
    unfolding p2_def by (rule set_fields_optional)+
  have soc: "social p2
             = \<lparr> youtube = if_truthy (b_youtube b2), facebook = if_truthy (b_facebook b2),
                 twitter = if_truthy (b_twitter b2), instagram = if_truthy (b_instagram b2),
                 linkedin = if_truthy (b_linkedin b2) \<rparr>"
    unfolding p2_def by (simp only: set_fields_written pf_social_build)
  have seqs: "experience p2 = experience p1" "education p2 = education p1"
    unfolding p2_def by (simp_all only: set_fields_written)
  show "\<exists>p1 p2.
         upsert_profile id1 db uid b1 = (PResponse 200 (ProfileDoc p1), db @ [p1])
         \<and> profile_id p1 = id1 \<and> user p1 = uid
         \<and> status p1 = s1 \<and> skills p1 = map trim (split CHR '','' k1)
         \<and> upsert_profile id2 (db @ [p1]) uid b2 = (PResponse 200 (ProfileDoc p2), db @ [p2])
         \<and> p2 = set_fields (build_profileFields uid b2) p1
         \<and> profile_id p2 = id1 \<and> user p2 = uid
         \<and> status p2 = s2 \<and> skills p2 = map trim (split CHR '','' k2)
         \<and> company p2 = (if truthy (b_company b2) then b_company b2 else company p1)
         \<and> website p2 = (if truthy (b_website b2) then b_website b2 else website p1)
         \<and> location p2 = (if truthy (b_location b2) then b_location b2 else location p1)
         \<and> bio p2 = (if truthy (b_bio b2) then b_bio b2 else bio p1)
         \<and> githubusername p2
             = (if truthy (b_githubusername b2) then b_githubusername b2 else githubusername p1)
         \<and> social p2
             = \<lparr> youtube = if_truthy (b_youtube b2), facebook = if_truthy (b_facebook b2),
                 twitter = if_truthy (b_twitter b2), instagram = if_truthy (b_instagram b2),
                 linkedin = if_truthy (b_linkedin b2) \<rparr>
         \<and> experience p2 = experience p1 \<and> education p2 = education p1"
    apply (rule exI [of _ p1], rule exI [of _ p2])
    using p1(2) ids st1 sk1 second ids2 st2 sk2 opt soc seqs p2_def
    by (intro conjI)
qed

theorem upsert_profile_single_document_witness:
  "length (filter (\<lambda>p. user p = ''u1'') []) \<le> 1
   \<and> length (filter (\<lambda>p. user p = ''u1'')
        (upsert_profiles [] [(''a1'', ''u1'', sample_body), (''a2'', ''u1'', sample_update)])) \<le> 1
   \<and> findOne ''u1'' [] = None
   \<and> b_status sample_body = Some ''Developer'' \<and> ''Developer'' \<noteq> []
   \<and> b_skills sample_body = Some ''node, react , css'' \<and> ''node, react , css'' \<noteq> []
   \<and> b_status sample_update = Some ''Lead'' \<and> ''Lead'' \<noteq> []
   \<and> b_skills sample_update = Some ''node'' \<and> ''node'' \<noteq> []
   \<and> (\<exists>p1 p2.
         upsert_profile ''a1'' [] ''u1'' sample_body = (PResponse 200 (ProfileDoc p1), [] @ [p1])
         \<and> profile_id p1 = ''a1'' \<and> user p1 = ''u1''
         \<and> status p1 = ''Developer'' \<and> skills p1 = [''node'', ''react'', ''css'']
         \<and> upsert_profile ''a2'' ([] @ [p1]) ''u1'' sample_update
             = (PResponse 200 (ProfileDoc p2), [] @ [p2])
         \<and> profile_id p2 = ''a1'' \<and> user p2 = ''u1''
         \<and> status p2 = ''Lead'' \<and> skills p2 = [''node'']
         \<and> company p2 = company p1
         \<and> twitter (social p2) = Some ''https://twitter.example/u1'')"
proof -
  have h1: "length (filter (\<lambda>p. user p = ''u1'') []) \<le> 1" by simp
  have h2: "findOne ''u1'' [] = None" by (simp add: findOne_def)
  have h3: "b_status sample_body = Some ''Developer''"
      "b_skills sample_body = Some ''node, react , css''"
    by (simp_all add: sample_body_def)
  have h4: "b_status sample_update = Some ''Lead''" "b_skills sample_update = Some ''node''"
    by (simp_all add: sample_update_def)
  have n: "''Developer'' \<noteq> []" "''node, react , css'' \<noteq> []" "''Lead'' \<noteq> []" "''node'' \<noteq> []"
    by simp_all
  have e1: "map trim (split CHR '','' ''node, react , css'') = [''node'', ''react'', ''css'']"
    by (simp add: trim_def is_whitespace_def)
  have e2: "map trim (split CHR '','' ''node'') = [''node'']"
    by (simp add: trim_def is_whitespace_def)
  have c: "\<not> truthy (b_company sample_update)"
    by (simp add: truthy_def sample_update_def)
  have tw: "if_truthy (b_twitter sample_update) = Some ''https://twitter.example/u1''"
    by (simp add: if_truthy_def truthy_def sample_update_def)
  note t = upsert_profile_single_document [where uid = "''u1''" and db = "[]"
      and calls = "[(''a1'', ''u1'', sample_body), (''a2'', ''u1'', sample_update)]"
      and ?b1.0 = sample_body and ?b2.0 = sample_update and ?id1.0 = "''a1''" and ?id2.0 = "''a2''"
      and ?s1.0 = "''Developer''" and ?k1.0 = "''node, react , css''"
      and ?s2.0 = "''Lead''" and ?k2.0 = "''node''"]
  have a: "length (filter (\<lambda>p. user p = ''u1'')
        (upsert_profiles [] [(''a1'', ''u1'', sample_body), (''a2'', ''u1'', sample_update)])) \<le> 1"
    using t h1 by blast
  from t h2 h3 h4 n obtain p1 p2 where p:
    "upsert_profile ''a1'' [] ''u1'' sample_body = (PResponse 200 (ProfileDoc p1), [] @ [p1])"
    "profile_id p1 = ''a1''" "user p1 = ''u1''"
    "status p1 = ''Developer''" "skills p1 = map trim (split CHR '','' ''node, react , css'')"
    "upsert_profile ''a2'' ([] @ [p1]) ''u1'' sample_update
       = (PResponse 200 (ProfileDoc p2), [] @ [p2])"
    "profile_id p2 = ''a1''" "user p2 = ''u1''"
    "status p2 = ''Lead''" "skills p2 = map trim (split CHR '','' ''node'')"
    "company p2 = (if truthy (b_company sample_update) then b_company sample_update else company p1)"
    "social p2
       = \<lparr> youtube = if_truthy (b_youtube sample_update),
           facebook = if_truthy (b_facebook sample_update),
           twitter = if_truthy (b_twitter sample_update),
           instagram = if_truthy (b_instagram sample_update),
           linkedin = if_truthy (b_linkedin sample_update) \<rparr>"
    by blast
  have sk1: "skills p1 = [''node'', ''react'', ''css'']" using p(5) by (simp only: e1)
  have sk2: "skills p2 = [''node'']" using p(10) by (simp only: e2)
  have co: "company p2 = company p1" using p(11) c by simp
  have so: "twitter (social p2) = Some ''https://twitter.example/u1''"
    unfolding p(12) by (simp add: tw)
  have b: "\<exists>p1 p2.
         upsert_profile ''a1'' [] ''u1'' sample_body = (PResponse 200 (ProfileDoc p1), [] @ [p1])
         \<and> profile_id p1 = ''a1'' \<and> user p1 = ''u1''
         \<and> status p1 = ''Developer'' \<and> skills p1 = [''node'', ''react'', ''css'']
         \<and> upsert_profile ''a2'' ([] @ [p1]) ''u1'' sample_update
             = (PResponse 200 (ProfileDoc p2), [] @ [p2])
         \<and> profile_id p2 = ''a1'' \<and> user p2 = ''u1''
         \<and> status p2 = ''Lead'' \<and> skills p2 = [''node'']
         \<and> company p2 = company p1
         \<and> twitter (social p2) = Some ''https://twitter.example/u1''"
    apply (rule exI [of _ p1], rule exI [of _ p2])
    using p(1-4) sk1 p(6-9) sk2 co so
    by (intro conjI)
  show ?thesis
    using h1 a h2 h3(1) n(1) h3(2) n(2) h4(1) n(3) h4(2) n(4) b by (intro conjI)
qed

text \<open>
  C8. For a request that passes validation (status and skills not empty), the profile that
  is returned and stored for the principal, created or updated, has as \<^verbatim>\<open>skills\<close> the
  skills string split at its commas with every piece trimmed, in order. Splitting means:
  joining the pieces with commas gives the string back and no piece holds a comma.
  Trimming means: the piece is the trimmed piece between two runs of white space, and the
  trimmed piece neither starts nor ends with white space. The string
  \<^verbatim>\<open>"node, react , css"\<close> yields \<^verbatim>\<open>["node", "react", "css"]\<close>.
\<close>

theorem upsert_profile_skills:
  assumes "truthy (b_status b)" and "b_skills b = Some s" and "s \<noteq> []"
  shows "(\<exists>p. fst (upsert_profile newId db uid b) = PResponse 200 (ProfileDoc p)
            \<and> findOne uid (snd (upsert_profile newId db uid b)) = Some p
            \<and> skills p = map trim (split CHR '','' s))
         \<and> join '','' (split CHR '','' s) = s
         \<and> (\<forall>piece\<in>set (split CHR '','' s). CHR '','' \<notin> set piece
              \<and> (\<exists>l r. piece = l @ trim piece @ r
                    \<and> list_all is_whitespace l \<and> list_all is_whitespace r)
              \<and> (trim piece \<noteq> [] \<longrightarrow>
                    \<not> is_whitespace (hd (trim piece)) \<and> \<not> is_whitespace (last (trim piece))))
         \<and> map trim (split CHR '','' ''node, react , css'') = [''node'', ''react'', ''css'']"
proof (intro conjI ballI impI)
  have sk: "truthy (b_skills b)" using assms(2,3) by (simp add: truthy_def)
  let ?f = "build_profileFields uid b"
  have pf: "pf_skills ?f = Some (map trim (split CHR '','' s))"
    using assms(2,3) by (rule pf_skills_build)
  obtain p where p: "upsert_profile newId db uid b
        = (PResponse 200 (ProfileDoc p), snd (upsert_profile newId db uid b))"
      "findOne uid (snd (upsert_profile newId db uid b)) = Some p"
      "case findOne uid db of
         None \<Rightarrow> new_Profile newId ?f = Inr p
       | Some q \<Rightarrow> p = set_fields ?f q"
    using upsert_profile_stored [OF assms(1) sk, of newId db uid] by blast
  have "skills p = map trim (split CHR '','' s)"
  proof (cases "findOne uid db")
    case None
    with p(3) have "new_Profile newId ?f = Inr p" by simp
    then show ?thesis using new_Profile_fields [of newId ?f p] pf by simp
  next
    case (Some q)
    with p(3) have "p = set_fields ?f q" by simp
    then show ?thesis using pf by (simp add: set_fields_def)
  qed
  with p(1,2) show "\<exists>p. fst (upsert_profile newId db uid b) = PResponse 200 (ProfileDoc p)
            \<and> findOne uid (snd (upsert_profile newId db uid b)) = Some p
            \<and> skills p = map trim (split CHR '','' s)"
    by (metis fst_conv)
next
  show "join '','' (split CHR '','' s) = s" by (rule join_split)
next
  fix piece assume "piece \<in> set (split CHR '','' s)"
  then show "CHR '','' \<notin> set piece" by (rule split_pieces_no_sep)
next
  fix piece
  show "\<exists>l r. piece = l @ trim piece @ r
                    \<and> list_all is_whitespace l \<and> list_all is_whitespace r"
    by (rule trim_decomposition)
next
  fix piece assume "trim piece \<noteq> []"
  then show "\<not> is_whitespace (hd (trim piece))" by (simp add: trim_ends)
next
  fix piece assume "trim piece \<noteq> []"
  then show "\<not> is_whitespace (last (trim piece))" by (simp add: trim_ends)
next
  show "map trim (split CHR '','' ''node, react , css'') = [''node'', ''react'', ''css'']"
    by (simp add: trim_def is_whitespace_def)
qed

theorem upsert_profile_skills_witness:
  "truthy (b_status sample_body) \<and> b_skills sample_body = Some ''node, react , css''
   \<and> ''node, react , css'' \<noteq> []
   \<and> (\<exists>p. fst (upsert_profile ''a1'' [] ''u1'' sample_body) = PResponse 200 (ProfileDoc p)
          \<and> findOne ''u1'' (snd (upsert_profile ''a1'' [] ''u1'' sample_body)) = Some p
          \<and> skills p = [''node'', ''react'', ''css''])"
proof -
  have h1: "truthy (b_status sample_body)" by (simp add: truthy_def sample_body_def)
  have h2: "b_skills sample_body = Some ''node, react , css''" by (simp add: sample_body_def)
  have h3: "''node, react , css'' \<noteq> []" by simp
  note t = upsert_profile_skills [where b = sample_body and s = "''node, react , css''"
      and newId = "''a1''" and db = "[]" and uid = "''u1''", OF h1 h2 h3]
  from t have e: "map trim (split CHR '','' ''node, react , css'') = [''node'', ''react'', ''css'']"
    by blast
  from t have "\<exists>p. fst (upsert_profile ''a1'' [] ''u1'' sample_body) = PResponse 200 (ProfileDoc p)
          \<and> findOne ''u1'' (snd (upsert_profile ''a1'' [] ''u1'' sample_body)) = Some p
          \<and> skills p = map trim (split CHR '','' ''node, react , css'')"
    by blast
  then have "\<exists>p. fst (upsert_profile ''a1'' [] ''u1'' sample_body) = PResponse 200 (ProfileDoc p)
          \<and> findOne ''u1'' (snd (upsert_profile ''a1'' [] ''u1'' sample_body)) = Some p
          \<and> skills p = [''node'', ''react'', ''css'']"
    unfolding e .
  with h1 h2 h3 show ?thesis by (intro conjI)
qed

section \<open>Adding experience\<close>

text \<open>
  C9. For a principal with a profile and a body with the required fields, the new entry is
  at index 0 of the stored and returned \<^verbatim>\<open>experience\<close>: it carries the fresh identity
  and the seven fields of the body as they were sent. The entries that were there follow in
  their order, each one index higher. Adding several entries one after the other leaves
  them in front of the old ones, latest first.
\<close>

theorem add_experience_at_head:
  assumes "findOne uid db = Some p"
    and "truthy (eb_title b)" and "truthy (eb_company b)" and "truthy (eb_from b)"
  shows "(\<exists>q. add_experience newId db uid b
                = (PResponse 200 (ProfileDoc q), snd (add_experience newId db uid b))
            \<and> findOne uid (snd (add_experience newId db uid b)) = Some q
            \<and> experience q ! 0 = newExp newId b
            \<and> experience q ! 0
                = \<lparr> exp_id = newId, exp_title = eb_title b, exp_company = eb_company b,
                    exp_location = eb_location b, exp_from = eb_from b, exp_to = eb_to b,
                    exp_current = eb_current b, exp_description = eb_description b \<rparr>
            \<and> length (experience q) = Suc (length (experience p))
            \<and> (\<forall>k<length (experience p). experience q ! Suc k = experience p ! k))
         \<and> ((\<forall>(i, e)\<in>set entries. truthy (eb_title e) \<and> truthy (eb_company e) \<and> truthy (eb_from e))
              \<longrightarrow> (\<exists>q. findOne uid (add_experiences db uid entries) = Some q
                     \<and> experience q = rev (map (\<lambda>(i, e). newExp i e) entries) @ experience p))"
proof (intro conjI impI)
  let ?q = "p\<lparr>experience := newExp newId b # experience p\<rparr>"
  have r: "add_experience newId db uid b = (PResponse 200 (ProfileDoc ?q), save_profile ?q db)"
    using assms by (rule add_experience_existing)
  have f: "findOne uid (snd (add_experience newId db uid b)) = Some ?q"
    using assms by (rule add_experience_findOne)
  have "add_experience newId db uid b
          = (PResponse 200 (ProfileDoc ?q), snd (add_experience newId db uid b))"
    using r by simp
  moreover have "experience ?q ! 0 = newExp newId b" by simp
  moreover have "experience ?q ! 0
                = \<lparr> exp_id = newId, exp_title = eb_title b, exp_company = eb_company b,
                    exp_location = eb_location b, exp_from = eb_from b, exp_to = eb_to b,
                    exp_current = eb_current b, exp_description = eb_description b \<rparr>"
    by (simp add: newExp_def)
  moreover have "length (experience ?q) = Suc (length (experience p))" by simp
  moreover have "\<forall>k<length (experience p). experience ?q ! Suc k = experience p ! k" by simp
  ultimately show "\<exists>q. add_experience newId db uid b
                = (PResponse 200 (ProfileDoc q), snd (add_experience newId db uid b))
            \<and> findOne uid (snd (add_experience newId db uid b)) = Some q
            \<and> experience q ! 0 = newExp newId b
            \<and> experience q ! 0
                = \<lparr> exp_id = newId, exp_title = eb_title b, exp_company = eb_company b,
                    exp_location = eb_location b, exp_from = eb_from b, exp_to = eb_to b,
                    exp_current = eb_current b, exp_description = eb_description b \<rparr>
            \<and> length (experience q) = Suc (length (experience p))
            \<and> (\<forall>k<length (experience p). experience q ! Suc k = experience p ! k)"
    using f by blast
next
  assume "\<forall>(i, e)\<in>set entries. truthy (eb_title e) \<and> truthy (eb_company e) \<and> truthy (eb_from e)"
  with assms(1) have "findOne uid (add_experiences db uid entries)
           = Some (p\<lparr>experience := rev (map (\<lambda>(i, e). newExp i e) entries) @ experience p\<rparr>)"
    by (rule add_experiences_findOne)
  then show "\<exists>q. findOne uid (add_experiences db uid entries) = Some q
                     \<and> experience q = rev (map (\<lambda>(i, e). newExp i e) entries) @ experience p"
    by simp
qed

theorem add_experience_at_head_witness:
  "findOne ''u1'' [sample_profile] = Some sample_profile
   \<and> truthy (eb_title (sample_experience ''Intern''))
   \<and> truthy (eb_company (sample_experience ''Intern''))
   \<and> truthy (eb_from (sample_experience ''Intern''))
   \<and> (\<exists>q. add_experience ''e1'' [sample_profile] ''u1'' (sample_experience ''Intern'')
              = (PResponse 200 (ProfileDoc q),
                 snd (add_experience ''e1'' [sample_profile] ''u1'' (sample_experience ''Intern'')))
          \<and> findOne ''u1''
               (snd (add_experience ''e1'' [sample_profile] ''u1'' (sample_experience ''Intern'')))
              = Some q
          \<and> experience q ! 0 = newExp ''e1'' (sample_experience ''Intern'')
          \<and> exp_id (experience q ! 0) = ''e1''
          \<and> exp_title (experience q ! 0) = Some ''Intern'')
   \<and> list_all (\<lambda>(i, e). truthy (eb_title e) \<and> truthy (eb_company e) \<and> truthy (eb_from e))
        [(''e1'', sample_experience ''Intern''), (''e2'', sample_experience ''Engineer'')]
   \<and> (\<exists>q. findOne ''u1'' (add_experiences [sample_profile] ''u1''
              [(''e1'', sample_experience ''Intern''), (''e2'', sample_experience ''Engineer'')])
            = Some q
          \<and> experience q = [newExp ''e2'' (sample_experience ''Engineer''),
                             newExp ''e1'' (sample_experience ''Intern'')])"
proof -
  have h1: "findOne ''u1'' [sample_profile] = Some sample_profile"
    by (simp add: findOne_def sample_profile_def)
  have h2: "truthy (eb_title (sample_experience t))" "truthy (eb_company (sample_experience t))"
      "truthy (eb_from (sample_experience t))" if "t \<noteq> []" for t
    using that by (simp_all add: truthy_def sample_experience_def)
  have i: "''Intern'' \<noteq> []" and e: "''Engineer'' \<noteq> []" by simp_all
  have h3: "list_all (\<lambda>(i, e). truthy (eb_title e) \<and> truthy (eb_company e) \<and> truthy (eb_from e))
        [(''e1'', sample_experience ''Intern''), (''e2'', sample_experience ''Engineer'')]"
    using h2 [OF i] h2 [OF e] by simp
  have h3': "\<forall>(i, e)\<in>set [(''e1'', sample_experience ''Intern''), (''e2'', sample_experience ''Engineer'')].
      truthy (eb_title e) \<and> truthy (eb_company e) \<and> truthy (eb_from e)"
    using h3 by (simp only: list_all_iff)
  note t = add_experience_at_head [where uid = "''u1''" and db = "[sample_profile]"
      and p = sample_profile and b = "sample_experience ''Intern''" and newId = "''e1''"
      and entries = "[(''e1'', sample_experience ''Intern''), (''e2'', sample_experience ''Engineer'')]",
      OF h1 h2 [OF i]]
  have a: "\<exists>q. add_experience ''e1'' [sample_profile] ''u1'' (sample_experience ''Intern'')
              = (PResponse 200 (ProfileDoc q),
                 snd (add_experience ''e1'' [sample_profile] ''u1'' (sample_experience ''Intern'')))
          \<and> findOne ''u1''
               (snd (add_experience ''e1'' [sample_profile] ''u1'' (sample_experience ''Intern'')))
              = Some q
          \<and> experience q ! 0 = newExp ''e1'' (sample_experience ''Intern'')
          \<and> exp_id (experience q ! 0) = ''e1''
          \<and> exp_title (experience q ! 0) = Some ''Intern''"
  proof -
    from t obtain q where q:
      "add_experience ''e1'' [sample_profile] ''u1'' (sample_experience ''Intern'')
         = (PResponse 200 (ProfileDoc q),
            snd (add_experience ''e1'' [sample_profile] ''u1'' (sample_experience ''Intern'')))"
      "findOne ''u1''
         (snd (add_experience ''e1'' [sample_profile] ''u1'' (sample_experience ''Intern'')))
        = Some q"
      "experience q ! 0 = newExp ''e1'' (sample_experience ''Intern'')"
      "experience q ! 0
         = \<lparr> exp_id = ''e1'', exp_title = eb_title (sample_experience ''Intern''),
             exp_company = eb_company (sample_experience ''Intern''),
             exp_location = eb_location (sample_experience ''Intern''),
             exp_from = eb_from (sample_experience ''Intern''),
             exp_to = eb_to (sample_experience ''Intern''),
             exp_current = eb_current (sample_experience ''Intern''),
             exp_description = eb_description (sample_experience ''Intern'') \<rparr>"
      by blast
    have "exp_id (experience q ! 0) = ''e1''"
      "exp_title (experience q ! 0) = Some ''Intern''"
      unfolding q(4) by (simp_all add: sample_experience_def)
    with q(1-3) show ?thesis by blast
  qed
  have "\<exists>q. findOne ''u1'' (add_experiences [sample_profile] ''u1''
              [(''e1'', sample_experience ''Intern''), (''e2'', sample_experience ''Engineer'')])
            = Some q
          \<and> experience q = rev (map (\<lambda>(i, e). newExp i e)
               [(''e1'', sample_experience ''Intern''), (''e2'', sample_experience ''Engineer'')])
               @ experience sample_profile"
    using t h3' by blast
  then have b: "\<exists>q. findOne ''u1'' (add_experiences [sample_profile] ''u1''
              [(''e1'', sample_experience ''Intern''), (''e2'', sample_experience ''Engineer'')])
            = Some q
          \<and> experience q = [newExp ''e2'' (sample_experience ''Engineer''),
                             newExp ''e1'' (sample_experience ''Intern'')]"
    by (simp add: sample_profile_def)
  show ?thesis
    using h1 h2 [OF i] h3 a b by (intro conjI)
qed

end
